theory Spec2Isabelle
  imports Complex_Main "HOL-Library.Multiset" "HOL-Library.Sublist"
begin

text \<open>
  A shallow embedding of the evaluation core of the repository: the metrics accumulator
  \<open>Evaluator.update\<close>, the metric functions and \<open>Evaluator.eval\<close>, the minimum-image
  displacement \<open>min_diff\<close> (all of ocpmodels/modules/evaluator.py) and the \<open>Normalizer\<close>
  with \<open>create_normalizer\<close> (src/fairchem/core/modules/normalizer.py). Tensor
  arithmetic is over exact reals, the float arithmetic of the accumulator rounds as
  Python's does, dicts are maps or records with optional fields, every exception is a value, and a
  method that mutates its table returns the table's contents after the call. The
  definitions come first, the properties after them.
\<close>

section \<open>Errors and numeric values\<close>

text \<open>
  The Python exceptions the modelled functions can raise. A function that can raise
  returns \<open>error + 'a\<close> (\<open>Inl\<close> the exception). Tensor entries and the arithmetic on
  tensors are modelled over exact reals; \<open>NaN\<close> is kept apart, since \<open>torch.mean\<close> of an
  empty tensor is NaN. The running total and mean of \<open>Evaluator.update\<close> are Python
  floats with their rounding, see below. \<open>NonFinite\<close> is no exception of Python: it marks a result that would
  hold \<open>inf\<close> or \<open>nan\<close> entries, which the reals do not represent.
\<close>

datatype error =
    NotImplementedError | ZeroDivisionError | AssertionError | ValueError | KeyError
  | TypeError | NameError | RuntimeError | IndexError | AttributeError | LinAlgError
  | NonFinite

datatype pyfloat = Fin real | NaN

text \<open>
  Arithmetic on Python floats (IEEE 754 binary64) rounds its exact result to the nearest
  double, ties to the even significand. \<open>round_double\<close> is that rounding on the reals: the
  spacing of the doubles around \<open>x\<close> is \<open>2\<close> to the power \<open>ulp_exp x\<close> (52 binary places
  below the leading bit, and never below \<open>-1074\<close>, the exponent of the spacing of the
  subnormal numbers). Results beyond the largest double, where Python gives \<open>inf\<close>, are outside the
  model. A Python int below \<open>2\<^sup>5\<^sup>3\<close> is the double of the same value.
\<close>

definition ulp_exp :: "real \<Rightarrow> int" where
  "ulp_exp x = max (\<lfloor>log 2 \<bar>x\<bar>\<rfloor> - 52) (- 1074)"

definition ties_even :: "real \<Rightarrow> int" where
  "ties_even q =
     (if q - of_int \<lfloor>q\<rfloor> < 1 / 2 then \<lfloor>q\<rfloor>
      else if q - of_int \<lfloor>q\<rfloor> > 1 / 2 then \<lfloor>q\<rfloor> + 1
      else if even \<lfloor>q\<rfloor> then \<lfloor>q\<rfloor> else \<lfloor>q\<rfloor> + 1)"

definition round_double :: "real \<Rightarrow> real" where
  "round_double x =
     (if x = 0 then 0
      else of_int (ties_even (x / 2 powr of_int (ulp_exp x))) * 2 powr of_int (ulp_exp x))"

section \<open>The metrics table and \<open>Evaluator.update\<close> (ocpmodels/modules/evaluator.py)\<close>

text \<open>
  A table entry is the dict \<open>{"metric": .., "total": .., "numel": ..}\<close>; \<open>metric\<close> is
  \<open>None\<close> in the seeded zero record. The table is a dict from metric names to entries.
\<close>

record metric_record =
  metric :: "real option"
  total :: real
  numel :: int

type_synonym metrics_table = "string \<rightharpoonup> metric_record"

text \<open>
  The \<open>stat\<close> argument of \<open>update\<close>, by the type tests the method makes: a dict with
  the keys \<open>metric\<close>, \<open>total\<close>, \<open>numel\<close> (as every metric function returns), a Python
  float or int, a torch tensor, or anything else (no branch of the method applies).
\<close>

datatype stat = StatDict pyfloat real int | StatNum real | StatTensor | StatOther

definition zero_record :: metric_record where
  "zero_record = \<lparr>metric = None, total = 0, numel = 0\<rparr>"

text \<open>\<open>if key not in metrics: metrics[key] = {"metric": None, "total": 0, "numel": 0}\<close>\<close>

definition seed :: "string \<Rightarrow> metrics_table \<Rightarrow> metrics_table" where
  "seed key metrics =
     (case metrics key of None \<Rightarrow> metrics(key \<mapsto> zero_record) | Some r \<Rightarrow> metrics)"

text \<open>
  The three assignments shared by the dict and the scalar branch:
  \<open>total += t; numel += n; metric = total / numel\<close>. The sum of the totals and the
  quotient are float operations and round; \<open>numel\<close> is a Python int, exact, and is
  converted to a float for the division. The table is mutated in place, so when the
  division raises \<open>ZeroDivisionError\<close> the two sums are already stored.
\<close>

definition accumulate ::
  "string \<Rightarrow> real \<Rightarrow> int \<Rightarrow> metrics_table \<Rightarrow> error option \<times> metrics_table" where
  "accumulate key t n metrics =
     (case metrics key of
        None \<Rightarrow> (Some KeyError, metrics)
      | Some r \<Rightarrow>
          (let r1 = r\<lparr>total := round_double (total r + t), numel := numel r + n\<rparr>;
               m1 = metrics(key \<mapsto> r1)
           in if numel r1 = 0 then (Some ZeroDivisionError, m1)
              else (None, m1(key \<mapsto> r1\<lparr>metric :=
                      Some (round_double (total r1 / round_double (of_int (numel r1))))\<rparr>))))"

text \<open>
  \<open>Evaluator.update(key, stat, metrics)\<close>. The result is the exception raised (\<open>None\<close>:
  the method returned, and what it returned is the table object itself) and the contents
  of the table object after the call.
\<close>

fun Evaluator_update ::
  "string \<Rightarrow> stat \<Rightarrow> metrics_table \<Rightarrow> error option \<times> metrics_table" where
  "Evaluator_update key (StatDict m t n) metrics = accumulate key t n (seed key metrics)"
| "Evaluator_update key (StatNum x) metrics = accumulate key x 1 (seed key metrics)"
| "Evaluator_update key StatTensor metrics = (Some NotImplementedError, seed key metrics)"
| "Evaluator_update key StatOther metrics = (None, seed key metrics)"

text \<open>Folding a sequence of updates into the table, one at a time; the first exception
  ends the run.\<close>

fun update_all ::
  "string \<Rightarrow> stat list \<Rightarrow> metrics_table \<Rightarrow> error option \<times> metrics_table" where
  "update_all key [] metrics = (None, metrics)"
| "update_all key (s # ss) metrics =
     (case Evaluator_update key s metrics of
        (Some e, m) \<Rightarrow> (Some e, m)
      | (None, m) \<Rightarrow> update_all key ss m)"

text \<open>The \<open>(total, numel)\<close> pair an update contributes: a scalar counts once.\<close>

fun stat_total :: "stat \<Rightarrow> real" where
  "stat_total (StatDict m t n) = t"
| "stat_total (StatNum x) = x"
| "stat_total s = 0"

fun stat_numel :: "stat \<Rightarrow> int" where
  "stat_numel (StatDict m t n) = n"
| "stat_numel (StatNum x) = 1"
| "stat_numel s = 0"

fun is_observation :: "stat \<Rightarrow> bool" where
  "is_observation (StatDict m t n) = True"
| "is_observation (StatNum x) = True"
| "is_observation s = False"

text \<open>
  Pre-summing a sub-group of updates into one pre-aggregated record, as a caller does in
  Python: the totals are added as floats, one after the other (\<open>fsum\<close>), the counts as
  ints.
\<close>

definition fsum :: "real list \<Rightarrow> real" where
  "fsum ts = foldl (\<lambda>a x. round_double (a + x)) 0 ts"

definition presum :: "stat list \<Rightarrow> stat" where
  "presum g =
     (let t = fsum (map stat_total g); n = sum_list (map stat_numel g)
      in StatDict (if n = 0 then NaN else Fin (round_double (t / round_double (of_int n)))) t n)"

text \<open>The entry a name stands for in a table: the zero record when the name is absent.\<close>

definition entry :: "string \<Rightarrow> metrics_table \<Rightarrow> metric_record" where
  "entry key metrics = (case metrics key of None \<Rightarrow> zero_record | Some r \<Rightarrow> r)"

text \<open>
  The entry \<open>r\<close> with the exact sums of the totals and counts of \<open>xs\<close> added to it, and
  the mean as the float division gives it.
\<close>

definition merged :: "metric_record \<Rightarrow> stat list \<Rightarrow> metric_record" where
  "merged r xs =
     \<lparr>metric = Some (round_double ((total r + sum_list (map stat_total xs))
                           / round_double (of_int (numel r + sum_list (map stat_numel xs))))),
      total = total r + sum_list (map stat_total xs),
      numel = numel r + sum_list (map stat_numel xs)\<rparr>"

text \<open>
  \<open>grid j x\<close>: \<open>x\<close> is an integer multiple of \<open>2\<^sup>j\<close>. \<open>no_rounding j r xs\<close>: the total of
  the entry \<open>r\<close> and the totals of the updates \<open>xs\<close> are multiples of \<open>2\<^sup>j\<close> whose absolute
  values sum to less than \<open>2\<^sup>5\<^sup>3 \<cdot> 2\<^sup>j\<close>. Every sum of some of them is then a double, so
  no float addition of them rounds, in whatever order; integer totals (counts) below
  \<open>2\<^sup>5\<^sup>3\<close> are the case \<open>j = 0\<close>.
\<close>

definition grid :: "int \<Rightarrow> real \<Rightarrow> bool" where
  "grid j x \<longleftrightarrow> (\<exists>k::int. x = of_int k * 2 powr of_int j)"

definition no_rounding :: "int \<Rightarrow> metric_record \<Rightarrow> stat list \<Rightarrow> bool" where
  "no_rounding j r xs \<longleftrightarrow>
     grid j (total r) \<and> (\<forall>s\<in>set xs. grid j (stat_total s))
     \<and> \<bar>total r\<bar> + sum_list (map (\<lambda>s. \<bar>stat_total s\<bar>) xs) < 2 ^ 53 * 2 powr of_int j"

section \<open>Results, broadcasting and tensors\<close>

text \<open>Sequencing of computations that can raise: the first exception ends the run.\<close>

definition rbind :: "error + 'a \<Rightarrow> ('a \<Rightarrow> error + 'b) \<Rightarrow> error + 'b" where
  "rbind r f = (case r of Inl e \<Rightarrow> Inl e | Inr x \<Rightarrow> f x)"

text \<open>The results of a list of computations, or the first exception among them.\<close>

fun collect :: "(error + 'a) list \<Rightarrow> error + 'a list" where
  "collect [] = Inr []"
| "collect (r # rs) = rbind r (\<lambda>x. rbind (collect rs) (\<lambda>xs. Inr (x # xs)))"

text \<open>
  An elementwise operation along the leading dimension of two arrays, under the
  broadcasting rule of numpy and torch: the lengths agree, or one of them is 1 and its only
  element is paired with every element of the other; \<open>e\<close> is the exception for any other
  pair of lengths (\<open>ValueError\<close> in numpy, \<open>RuntimeError\<close> in torch).
\<close>

definition bzip :: "error \<Rightarrow> ('a \<Rightarrow> 'b \<Rightarrow> 'c) \<Rightarrow> 'a list \<Rightarrow> 'b list \<Rightarrow> error + 'c list" where
  "bzip e f xs ys =
     (if length xs = length ys then Inr (map2 f xs ys)
      else if length xs = 1 then Inr (map (f (hd xs)) ys)
      else if length ys = 1 then Inr (map (\<lambda>x. f x (hd ys)) xs)
      else Inl e)"

text \<open>
  A float tensor of rank 0, 1 or 2 (rank 2 as the list of its rows), and an elementwise
  binary operation on two of them with broadcasting.
\<close>

datatype tensor = T0 real | T1 "real list" | T2 "real list list"

fun bop :: "(real \<Rightarrow> real \<Rightarrow> real) \<Rightarrow> tensor \<Rightarrow> tensor \<Rightarrow> error + tensor" where
  "bop f (T0 a) (T0 b) = Inr (T0 (f a b))"
| "bop f (T0 a) (T1 ys) = Inr (T1 (map (f a) ys))"
| "bop f (T1 xs) (T0 b) = Inr (T1 (map (\<lambda>x. f x b) xs))"
| "bop f (T1 xs) (T1 ys) = rbind (bzip RuntimeError f xs ys) (\<lambda>r. Inr (T1 r))"
| "bop f (T0 a) (T2 yss) = Inr (T2 (map (map (f a)) yss))"
| "bop f (T2 xss) (T0 b) = Inr (T2 (map (map (\<lambda>x. f x b)) xss))"
| "bop f (T1 xs) (T2 yss) =
     rbind (collect (map (bzip RuntimeError f xs) yss)) (\<lambda>r. Inr (T2 r))"
| "bop f (T2 xss) (T1 ys) =
     rbind (collect (map (\<lambda>xs. bzip RuntimeError f xs ys) xss)) (\<lambda>r. Inr (T2 r))"
| "bop f (T2 xss) (T2 yss) =
     rbind (bzip RuntimeError (bzip RuntimeError f) xss yss)
       (\<lambda>rs. rbind (collect rs) (\<lambda>r. Inr (T2 r)))"

text \<open>The entries of a tensor, in row-major order.\<close>

fun entries :: "tensor \<Rightarrow> real list" where
  "entries (T0 a) = [a]"
| "entries (T1 xs) = xs"
| "entries (T2 xss) = concat xss"

text \<open>
  Elementwise division. torch does not raise on a zero divisor; the quotient is then
  \<open>inf\<close> or \<open>nan\<close>, which a tensor of reals cannot hold, so the model reports
  \<open>NonFinite\<close> for it.
\<close>

definition tdiv :: "tensor \<Rightarrow> tensor \<Rightarrow> error + tensor" where
  "tdiv x s =
     rbind (bop (\<lambda>a b. b) x s)
       (\<lambda>d. if list_ex (\<lambda>b. b = 0) (entries d) then Inl NonFinite else bop (/) x s)"

section \<open>\<open>Normalizer\<close> (src/fairchem/core/modules/normalizer.py)\<close>

text \<open>The two buffers of the module. A Python float given to the constructor becomes a
  tensor of rank 0.\<close>

record normalizer =
  mean :: tensor
  std :: tensor

text \<open>\<open>norm(tensor) = (tensor - self.mean) / self.std\<close>\<close>

definition norm :: "normalizer \<Rightarrow> tensor \<Rightarrow> error + tensor" where
  "norm self x = rbind (bop (-) x (mean self)) (\<lambda>d. tdiv d (std self))"

text \<open>\<open>denorm(normed_tensor) = normed_tensor * self.std + self.mean\<close>\<close>

definition denorm :: "normalizer \<Rightarrow> tensor \<Rightarrow> error + tensor" where
  "denorm self y = rbind (bop (*) y (std self)) (\<lambda>p. bop (+) p (mean self))"

text \<open>
  \<open>fits p x\<close>: the parameter \<open>p\<close> (a scalar, or one value per channel) broadcasts to the
  shape of \<open>x\<close> and leaves that shape as it is.
\<close>

fun fits :: "tensor \<Rightarrow> tensor \<Rightarrow> bool" where
  "fits (T0 b) x = True"
| "fits (T1 ps) (T1 xs) = (length ps = length xs \<or> length ps = 1)"
| "fits (T1 ps) (T2 xss) = list_all (\<lambda>xs. length ps = length xs \<or> length ps = 1) xss"
| "fits p x = False"


text \<open>The channel values of a parameter along a row of \<open>n\<close> entries, and the elementwise
  operation written out, for shapes that fit.\<close>

fun chan :: "tensor \<Rightarrow> nat \<Rightarrow> real list" where
  "chan (T0 b) n = replicate n b"
| "chan (T1 ps) n = (if length ps = n then ps else replicate n (hd ps))"
| "chan (T2 pss) n = []"

fun ew :: "(real \<Rightarrow> real \<Rightarrow> real) \<Rightarrow> tensor \<Rightarrow> tensor \<Rightarrow> tensor" where
  "ew f (T0 a) p = T0 (f a (hd (chan p 1)))"
| "ew f (T1 xs) p = T1 (map2 f xs (chan p (length xs)))"
| "ew f (T2 xss) p = T2 (map (\<lambda>xs. map2 f xs (chan p (length xs))) xss)"

text \<open>
  A state dict holds, under \<open>mean\<close> and \<open>std\<close>, a Python float (the legacy encoding) or
  a tensor. What reading \<open>file\<close> gives is the argument of the model: a state dict from
  \<open>torch.load\<close>; the \<open>mean\<close> and \<open>std\<close> entries of an npz archive (\<open>values.get\<close> gives
  \<open>None\<close> for a missing one) when \<open>torch.load\<close> raised \<open>RuntimeError\<close>; or an
  exception that neither call handles.
\<close>

datatype sd_value = SFloat real | STensor tensor

type_synonym state_dict = "string \<rightharpoonup> sd_value"

datatype file_load = TorchLoaded state_dict | NpzLoaded "tensor option" "tensor option" | LoadFailed error

fun as_tensor :: "sd_value \<Rightarrow> tensor" where
  "as_tensor (SFloat x) = T0 x"
| "as_tensor (STensor t) = t"

text \<open>
  \<open>Normalizer.load_state_dict\<close>: a legacy state dict is upgraded to tensors, then the
  method of \<open>nn.Module\<close> (\<open>super_load\<close>, not part of the repository) loads it. The method
  has no \<open>return\<close> statement: when nothing is raised it returns \<open>None\<close>. The result is
  the exception raised, if any.
\<close>

definition Normalizer_load_state_dict ::
  "(state_dict \<Rightarrow> error option) \<Rightarrow> state_dict \<Rightarrow> error option" where
  "Normalizer_load_state_dict super_load state_dict =
     (case state_dict ''mean'' of
        None \<Rightarrow> Some KeyError
      | Some (SFloat m) \<Rightarrow>
          (case state_dict ''std'' of
             None \<Rightarrow> Some KeyError
           | Some s \<Rightarrow>
               super_load (state_dict(''mean'' \<mapsto> STensor (T0 m), ''std'' \<mapsto> STensor (as_tensor s))))
      | Some (STensor m) \<Rightarrow> super_load state_dict)"

text \<open>
  \<open>create_normalizer(file, state_dict, tensor, mean, std, device)\<close>. \<open>torch.mean(_, dim=0)\<close>
  and \<open>torch.std(_, dim=0)\<close> are the parameters \<open>torch_mean\<close> and \<open>torch_std\<close>;
  \<open>torch.tensor(mean)\<close> is the value itself, and the device is left out. On the state-dict
  path \<open>normalizer\<close> is what \<open>load_state_dict\<close> returned, that is \<open>None\<close>, so
  \<open>normalizer.to(device)\<close> raises \<open>AttributeError\<close>.
\<close>

definition create_normalizer ::
  "(state_dict \<Rightarrow> error option) \<Rightarrow> (tensor \<Rightarrow> tensor) \<Rightarrow> (tensor \<Rightarrow> tensor) \<Rightarrow>
   file_load option \<Rightarrow> state_dict option \<Rightarrow> tensor option \<Rightarrow> tensor option \<Rightarrow> tensor option \<Rightarrow>
   error + normalizer" where
  "create_normalizer super_load torch_mean torch_std file state_dict tensor mean_arg std_arg =
     rbind
       (case file of
          None \<Rightarrow> Inr (state_dict, mean_arg, std_arg)
        | Some (TorchLoaded sd) \<Rightarrow> Inr (Some sd, mean_arg, std_arg)
        | Some (NpzLoaded m s) \<Rightarrow> Inr (state_dict, m, s)
        | Some (LoadFailed e) \<Rightarrow> Inl e)
       (\<lambda>(state_dict1, mean1, std1).
          case state_dict1 of
            Some sd \<Rightarrow>
              (case Normalizer_load_state_dict super_load sd of
                 Some e \<Rightarrow> Inl e
               | None \<Rightarrow> Inl AttributeError)
          | None \<Rightarrow>
              (let (mean2, std2) =
                     (if tensor \<noteq> None \<and> mean1 \<noteq> None \<and> std1 \<noteq> None
                      then (map_option torch_mean tensor, map_option torch_std tensor)
                      else if mean1 \<noteq> None \<and> std1 \<noteq> None
                      then (mean1, std1)
                      else (mean1, std1))
               in case (mean2, std2) of
                    (Some m, Some s) \<Rightarrow> Inr \<lparr>mean = m, std = s\<rparr>
                  | _ \<Rightarrow> Inl ValueError))"

section \<open>\<open>min_diff\<close> (ocpmodels/modules/evaluator.py)\<close>

text \<open>
  Positions are \<open>N \<times> 3\<close> arrays, a cell is a \<open>3 \<times> 3\<close> array given by its rows.
\<close>

type_synonym vec3 = "real \<times> real \<times> real"
type_synonym mat3 = "vec3 \<times> vec3 \<times> vec3"

fun vsub :: "vec3 \<Rightarrow> vec3 \<Rightarrow> vec3" where
  "vsub (a1, a2, a3) (b1, b2, b3) = (a1 - b1, a2 - b2, a3 - b3)"

text \<open>The determinant of a cell, and \<open>f \<cdot> cell\<close> for a row vector \<open>f\<close>.\<close>

fun det3 :: "mat3 \<Rightarrow> real" where
  "det3 ((a, b, c), (d, e, f), (g, h, i)) =
     a * (e * i - f * h) - b * (d * i - f * g) + c * (d * h - e * g)"

fun vecmat :: "vec3 \<Rightarrow> mat3 \<Rightarrow> vec3" where
  "vecmat (x, y, z) ((a, b, c), (d, e, f), (g, h, i)) =
     (x * a + y * d + z * g, x * b + y * e + z * h, x * c + y * f + z * i)"

text \<open>
  \<open>np.linalg.solve(cell.T, pos_diff.T).T\<close>: numpy is not part of the repository. In exact
  arithmetic the routine returns, for every row \<open>d\<close> of \<open>pos_diff\<close>, the one \<open>f\<close> with
  \<open>f \<cdot> cell = d\<close>, written here by Cramer's rule, and raises \<open>LinAlgError\<close> for a
  singular cell.
\<close>

fun solve_row :: "mat3 \<Rightarrow> vec3 \<Rightarrow> vec3" where
  "solve_row (r1, r2, r3) d =
     (det3 (d, r2, r3) / det3 (r1, r2, r3),
      det3 (r1, d, r3) / det3 (r1, r2, r3),
      det3 (r1, r2, d) / det3 (r1, r2, r3))"

definition linalg_solve :: "mat3 \<Rightarrow> vec3 list \<Rightarrow> error + vec3 list" where
  "linalg_solve cell pos_diff =
     (if det3 cell = 0 then Inl LinAlgError else Inr (map (solve_row cell) pos_diff))"

text \<open>\<open>x % 1.0\<close> on floats, in exact arithmetic: the result lies in \<open>[0, 1)\<close>.\<close>

definition pymod1 :: "real \<Rightarrow> real" where
  "pymod1 x = x - of_int \<lfloor>x\<rfloor>"

text \<open>Column \<open>i\<close> of a row, read and updated.\<close>

fun get_col :: "nat \<Rightarrow> vec3 \<Rightarrow> real" where
  "get_col i (x, y, z) = (if i = 0 then x else if i = 1 then y else z)"

fun map_col :: "nat \<Rightarrow> (real \<Rightarrow> real) \<Rightarrow> vec3 \<Rightarrow> vec3" where
  "map_col i g (x, y, z) =
     (if i = 0 then (g x, y, z) else if i = 1 then (x, g y, z) else (x, y, g z))"

text \<open>
  The loop \<open>for i, periodic in enumerate(pbc)\<close>, from index \<open>i\<close> on: a periodic axis
  is reduced modulo 1 twice; column 3 or beyond of an \<open>N \<times> 3\<close> array raises
  \<open>IndexError\<close>.
\<close>

fun wrap_axes :: "nat \<Rightarrow> bool list \<Rightarrow> vec3 list \<Rightarrow> error + vec3 list" where
  "wrap_axes i [] fractional = Inr fractional"
| "wrap_axes i (periodic # pbc) fractional =
     (if periodic
      then (if i < 3
            then wrap_axes (Suc i) pbc (map (map_col i (\<lambda>x. pymod1 (pymod1 x))) fractional)
            else Inl IndexError)
      else wrap_axes (Suc i) pbc fractional)"

text \<open>\<open>fractional[fractional > 0.5] -= 1\<close>, on every entry of the array.\<close>

definition shift_half :: "real \<Rightarrow> real" where
  "shift_half x = (if x > 1 / 2 then x - 1 else x)"

fun shift_all :: "vec3 \<Rightarrow> vec3" where
  "shift_all (x, y, z) = (shift_half x, shift_half y, shift_half z)"

text \<open>
  \<open>min_diff(pred_pos, dft_pos, cell, pbc)\<close>. The subtraction broadcasts as numpy does
  (\<open>ValueError\<close> on row counts that neither agree nor are 1).
\<close>

definition min_diff :: "vec3 list \<Rightarrow> vec3 list \<Rightarrow> mat3 \<Rightarrow> bool list \<Rightarrow> error + vec3 list" where
  "min_diff pred_pos dft_pos cell pbc =
     rbind (bzip ValueError vsub pred_pos dft_pos) (\<lambda>pos_diff.
     rbind (linalg_solve cell pos_diff) (\<lambda>fractional.
     rbind (wrap_axes 0 pbc fractional) (\<lambda>wrapped.
     Inr (map (\<lambda>f. vecmat (shift_all f) cell) wrapped))))"

definition cell_identity :: mat3 where
  "cell_identity = ((1, 0, 0), (0, 1, 0), (0, 0, 1))"


text \<open>Axis \<open>i\<close> is not wrapped by the loop: its flag is false, or \<open>pbc\<close> has no flag for it.\<close>

definition nonperiodic :: "bool list \<Rightarrow> nat \<Rightarrow> bool" where
  "nonperiodic pbc i = (if i < length pbc then \<not> pbc ! i else True)"

text \<open>A row with all three axes reduced modulo 1 twice.\<close>

fun wrap3 :: "vec3 \<Rightarrow> vec3" where
  "wrap3 (x, y, z) = (pymod1 (pymod1 x), pymod1 (pymod1 y), pymod1 (pymod1 z))"

section \<open>Batches and metric functions (ocpmodels/modules/evaluator.py)\<close>

text \<open>
  A prediction or target batch is a dict from property names to tensors; a key that is
  absent is \<open>None\<close>, and reading it raises \<open>KeyError\<close>. The model has the keys the
  metric functions below read: \<open>energy\<close> (one float per structure), \<open>forces\<close> and
  \<open>positions\<close> (\<open>N \<times> 3\<close> floats), \<open>natoms\<close> (one count per structure), \<open>cell\<close>
  (one \<open>3 \<times> 3\<close> cell per structure) and \<open>pbc\<close> (one flag per axis). The stress keys,
  which only \<open>stress_mae\<close> reads, are not modelled: a modelled batch has none of them.
\<close>

record batch =
  energy :: "real list option"
  forces :: "vec3 list option"
  positions :: "vec3 list option"
  natoms :: "nat list option"
  cell :: "mat3 list option"
  pbc :: "bool list option"

definition getitem :: "'a option \<Rightarrow> error + 'a" where
  "getitem v = (case v of None \<Rightarrow> Inl KeyError | Some x \<Rightarrow> Inr x)"

text \<open>
  The record every error metric returns:
  \<open>{"metric": torch.mean(error).item(), "total": torch.sum(error).item(),
  "numel": error.numel()}\<close>; the mean of an empty tensor is NaN.
\<close>

definition summary :: "real list \<Rightarrow> stat" where
  "summary err =
     StatDict (if err = [] then NaN else Fin (sum_list err / of_nat (length err)))
              (sum_list err) (int (length err))"

text \<open>\<open>mae\<close> and \<open>mse\<close> on two tensors (\<open>key = slice(None)\<close>), with torch's broadcasting.\<close>

definition mae :: "tensor \<Rightarrow> tensor \<Rightarrow> error + stat" where
  "mae prediction target =
     rbind (bop (\<lambda>t p. \<bar>t - p\<bar>) target prediction) (\<lambda>err. Inr (summary (entries err)))"

definition mse :: "tensor \<Rightarrow> tensor \<Rightarrow> error + stat" where
  "mse prediction target =
     rbind (bop (\<lambda>t p. (t - p)\<^sup>2) target prediction) (\<lambda>err. Inr (summary (entries err)))"

text \<open>
  \<open>forcesx_mae\<close> to \<open>forcesz_mse\<close>: \<open>mae\<close> or \<open>mse\<close> of column 0, 1 or 2 of the forces;
  their third parameter \<open>key\<close> is ignored.
\<close>

definition forces_column ::
  "(tensor \<Rightarrow> tensor \<Rightarrow> error + stat) \<Rightarrow> nat \<Rightarrow> batch \<Rightarrow> batch \<Rightarrow> error + stat" where
  "forces_column metric_fn i prediction target =
     rbind (getitem (forces prediction)) (\<lambda>pf.
     rbind (getitem (forces target)) (\<lambda>tf.
     metric_fn (T1 (map (get_col i) pf)) (T1 (map (get_col i) tf))))"

definition forcesx_mae :: "batch \<Rightarrow> batch \<Rightarrow> error + stat" where
  "forcesx_mae prediction target = forces_column mae 0 prediction target"

definition forcesx_mse :: "batch \<Rightarrow> batch \<Rightarrow> error + stat" where
  "forcesx_mse prediction target = forces_column mse 0 prediction target"

definition forcesy_mae :: "batch \<Rightarrow> batch \<Rightarrow> error + stat" where
  "forcesy_mae prediction target = forces_column mae 1 prediction target"

definition forcesy_mse :: "batch \<Rightarrow> batch \<Rightarrow> error + stat" where
  "forcesy_mse prediction target = forces_column mse 1 prediction target"

definition forcesz_mae :: "batch \<Rightarrow> batch \<Rightarrow> error + stat" where
  "forcesz_mae prediction target = forces_column mae 2 prediction target"

definition forcesz_mse :: "batch \<Rightarrow> batch \<Rightarrow> error + stat" where
  "forcesz_mse prediction target = forces_column mse 2 prediction target"

text \<open>The three entries of a row, and the elementwise absolute value.\<close>

fun comps :: "vec3 \<Rightarrow> real list" where
  "comps (x, y, z) = [x, y, z]"

fun vabs :: "vec3 \<Rightarrow> vec3" where
  "vabs (x, y, z) = (\<bar>x\<bar>, \<bar>y\<bar>, \<bar>z\<bar>)"

definition e_thresh :: real where "e_thresh = 2 / 100"
definition f_thresh :: real where "f_thresh = 3 / 100"

text \<open>\<open>.max()\<close> over all entries of a slice of rows; torch raises \<open>RuntimeError\<close> on an
  empty tensor.\<close>

definition tensor_max :: "vec3 list \<Rightarrow> error + real" where
  "tensor_max rows =
     (case concat (map comps rows) of
        [] \<Rightarrow> Inl RuntimeError
      | x # xs \<Rightarrow> Inr (fold max xs x))"

text \<open>
  The loop \<open>for i, n in enumerate(target["natoms"])\<close> of
  \<open>energy_force_within_threshold\<close>, from structure \<open>i\<close> and row \<open>start_idx\<close> on. Python's
  \<open>and\<close> does not take the maximum when the energy test fails.
\<close>

fun count_success ::
  "nat \<Rightarrow> nat \<Rightarrow> nat list \<Rightarrow> real list \<Rightarrow> vec3 list \<Rightarrow> int \<Rightarrow> error + int" where
  "count_success i start_idx [] error_energy error_forces success = Inr success"
| "count_success i start_idx (n # ns) error_energy error_forces success =
     (if length error_energy \<le> i then Inl IndexError
      else if error_energy ! i < e_thresh
      then rbind (tensor_max (take n (drop start_idx error_forces))) (\<lambda>m.
             count_success (Suc i) (start_idx + n) ns error_energy error_forces
               (if m < f_thresh then success + 1 else success))
      else count_success (Suc i) (start_idx + n) ns error_energy error_forces success)"

text \<open>
  \<open>energy_force_within_threshold(prediction, target, key)\<close>: the two assertions, the
  absolute errors (with torch's broadcasting), the loop, and \<open>success / total\<close>, which
  raises \<open>ZeroDivisionError\<close> for a batch of no structures.
\<close>

definition energy_force_within_threshold :: "batch \<Rightarrow> batch \<Rightarrow> error + stat" where
  "energy_force_within_threshold prediction target =
     rbind (getitem (natoms target)) (\<lambda>counts.
     rbind (getitem (forces prediction)) (\<lambda>pf.
     if sum_list counts \<noteq> length pf then Inl AssertionError else
     rbind (getitem (energy prediction)) (\<lambda>pe.
     if length counts \<noteq> length pe then Inl AssertionError else
     rbind (getitem (forces target)) (\<lambda>tf.
     rbind (bzip RuntimeError (\<lambda>t p. vabs (vsub t p)) tf pf) (\<lambda>error_forces.
     rbind (getitem (energy target)) (\<lambda>te.
     rbind (bzip RuntimeError (\<lambda>t p. \<bar>t - p\<bar>) te pe) (\<lambda>error_energy.
     rbind (count_success 0 0 counts error_energy error_forces 0) (\<lambda>success.
     if length counts = 0 then Inl ZeroDivisionError
     else Inr (StatDict (Fin (of_int success / of_nat (length counts)))
                        (of_int success) (int (length counts)))))))))))"

text \<open>\<open>energy_within_threshold(prediction, target, key)\<close>\<close>

definition energy_within_threshold :: "batch \<Rightarrow> batch \<Rightarrow> error + stat" where
  "energy_within_threshold prediction target =
     rbind (getitem (energy target)) (\<lambda>te.
     rbind (getitem (energy prediction)) (\<lambda>pe.
     rbind (bzip RuntimeError (\<lambda>t p. \<bar>t - p\<bar>) te pe) (\<lambda>error_energy.
     let success = length (filter (\<lambda>e. e < e_thresh) error_energy) in
     if length te = 0 then Inl ZeroDivisionError
     else Inr (StatDict (Fin (of_nat success / of_nat (length te)))
                        (of_nat success) (int (length te))))))"

text \<open>
  \<open>torch.split(tensor, sizes)\<close> with a list of sizes: consecutive chunks, and
  \<open>RuntimeError\<close> unless the sizes sum to the number of rows.
\<close>

definition split_sizes :: "'a list \<Rightarrow> nat list \<Rightarrow> error + 'a list list" where
  "split_sizes xs sizes =
     (if sum_list sizes \<noteq> length xs then Inl RuntimeError
      else Inr (map (\<lambda>k. take (sizes ! k) (drop (sum_list (take k sizes)) xs))
                    [0..<length sizes]))"

text \<open>\<open>np.linalg.norm(_, axis=1)\<close> of a row, \<open>np.mean\<close> (NaN on no rows), and \<open><\<close> on a
  float that may be NaN.\<close>

fun vnorm :: "vec3 \<Rightarrow> real" where
  "vnorm (x, y, z) = sqrt (x\<^sup>2 + y\<^sup>2 + z\<^sup>2)"

definition np_mean :: "real list \<Rightarrow> pyfloat" where
  "np_mean xs = (if xs = [] then NaN else Fin (sum_list xs / of_nat (length xs)))"

fun pyless :: "pyfloat \<Rightarrow> real \<Rightarrow> bool" where
  "pyless (Fin x) t = (x < t)"
| "pyless NaN t = False"

text \<open>\<open>np.arange(0.01, 0.5, 0.001)\<close>: 490 thresholds.\<close>

definition intv :: "real list" where
  "intv = map (\<lambda>k. 1 / 100 + of_nat k / 1000) [0..<490]"

text \<open>
  \<open>average_distance_within_threshold(prediction, target, key)\<close>: the mean minimum-image
  distance of every structure (the body of its first loop is \<open>mean_distance_at\<close>), then
  the count of (threshold, structure) pairs with the distance below the threshold.
\<close>

definition mean_distance_at ::
  "vec3 list list \<Rightarrow> batch \<Rightarrow> nat \<Rightarrow> vec3 list \<Rightarrow> error + pyfloat" where
  "mean_distance_at target_pos target idx ml_pos =
     (if length target_pos \<le> idx then Inl IndexError else
      rbind (getitem (cell target)) (\<lambda>cells.
      if length cells \<le> idx then Inl IndexError else
      rbind (getitem (pbc target)) (\<lambda>flags.
      rbind (min_diff ml_pos (target_pos ! idx) (cells ! idx) flags) (\<lambda>diff.
      Inr (np_mean (map vnorm diff))))))"

definition average_distance_within_threshold :: "batch \<Rightarrow> batch \<Rightarrow> error + stat" where
  "average_distance_within_threshold prediction target =
     rbind (getitem (positions prediction)) (\<lambda>pp.
     rbind (getitem (natoms prediction)) (\<lambda>pn.
     rbind (split_sizes pp pn) (\<lambda>pred_pos.
     rbind (getitem (positions target)) (\<lambda>tp.
     rbind (getitem (natoms target)) (\<lambda>tn.
     rbind (split_sizes tp tn) (\<lambda>target_pos.
     rbind (collect (map (\<lambda>idx. mean_distance_at target_pos target idx (pred_pos ! idx))
                         [0..<length pred_pos])) (\<lambda>mean_distance.
     let success = sum_list (map (\<lambda>i. length (filter (\<lambda>d. pyless d i) mean_distance)) intv);
         total = length mean_distance * length intv
     in if total = 0 then Inl ZeroDivisionError
        else Inr (StatDict (Fin (of_nat success / of_nat total)) (of_nat success) (int total)))))))))"

text \<open>
  What a batch holds under a key, for the functions that take the key as an argument: a
  float tensor (a cell as a row of its nine entries), or a tensor of integers or booleans.
  On the latter \<open>torch.mean\<close> and \<open>-\<close> raise \<open>RuntimeError\<close>.
\<close>

datatype item = Floats tensor | NonFloat

definition batch_item :: "batch \<Rightarrow> string \<Rightarrow> error + item" where
  "batch_item b key =
     (if key = ''energy'' then rbind (getitem (energy b)) (\<lambda>e. Inr (Floats (T1 e)))
      else if key = ''forces'' then rbind (getitem (forces b)) (\<lambda>f. Inr (Floats (T2 (map comps f))))
      else if key = ''positions''
      then rbind (getitem (positions b)) (\<lambda>f. Inr (Floats (T2 (map comps f))))
      else if key = ''cell''
      then rbind (getitem (cell b))
             (\<lambda>c. Inr (Floats (T2 (map (\<lambda>(r1, r2, r3). comps r1 @ comps r2 @ comps r3) c))))
      else if key = ''natoms'' then rbind (getitem (natoms b)) (\<lambda>n. Inr NonFloat)
      else if key = ''pbc'' then rbind (getitem (pbc b)) (\<lambda>n. Inr NonFloat)
      else Inl KeyError)"

text \<open>\<open>mae(prediction, target, key)\<close> and \<open>mse(prediction, target, key)\<close> on two batches:
  \<open>target[key]\<close> is read first.\<close>

definition by_key ::
  "(tensor \<Rightarrow> tensor \<Rightarrow> error + stat) \<Rightarrow> batch \<Rightarrow> batch \<Rightarrow> string \<Rightarrow> error + stat" where
  "by_key metric_fn prediction target key =
     rbind (batch_item target key) (\<lambda>t.
     rbind (batch_item prediction key) (\<lambda>p.
     case (t, p) of
       (Floats tt, Floats pt) \<Rightarrow> metric_fn pt tt
     | _ \<Rightarrow> Inl RuntimeError))"

text \<open>
  \<open>cosine_similarity(prediction, target, key)\<close>; \<open>torch.cosine_similarity\<close> is a
  parameter, giving the entries of its result or the exception it raises.
\<close>

definition cosine_similarity ::
  "(item \<Rightarrow> item \<Rightarrow> error + real list) \<Rightarrow> batch \<Rightarrow> batch \<Rightarrow> string \<Rightarrow> error + stat" where
  "cosine_similarity torch_cosine_similarity prediction target key =
     rbind (batch_item prediction key) (\<lambda>p.
     rbind (batch_item target key) (\<lambda>t.
     rbind (torch_cosine_similarity p t) (\<lambda>err. Inr (summary err))))"

text \<open>
  \<open>eval(fn)(prediction, target, target_property)\<close> for \<open>fn\<close> the name of a function
  the module defines. The functions after the merge marker, \<open>forces_mae\<close> to
  \<open>positions_mse\<close>, take two parameters, so the call with three raises \<open>TypeError\<close>, as
  does \<open>min_diff\<close>, which needs four; \<open>stress_mae\<close> reads a stress key first;
  \<open>magnitude_error\<close> reads \<open>prediction.shape\<close> of a dict. A name the module does not
  define (\<open>energy_mae\<close>, \<open>energy_mse\<close>) raises \<open>NameError\<close>; builtins and other
  expressions are outside this table.
\<close>

definition module_call ::
  "(item \<Rightarrow> item \<Rightarrow> error + real list) \<Rightarrow> string \<Rightarrow> batch \<Rightarrow> batch \<Rightarrow> string \<Rightarrow> error + stat" where
  "module_call torch_cosine_similarity fn prediction target key =
     (if fn = ''forcesx_mae'' then forcesx_mae prediction target
      else if fn = ''forcesx_mse'' then forcesx_mse prediction target
      else if fn = ''forcesy_mae'' then forcesy_mae prediction target
      else if fn = ''forcesy_mse'' then forcesy_mse prediction target
      else if fn = ''forcesz_mae'' then forcesz_mae prediction target
      else if fn = ''forcesz_mse'' then forcesz_mse prediction target
      else if fn \<in> set [''forces_mae'', ''forces_mse'', ''forces_cos'', ''forces_magnitude'',
                         ''positions_mae'', ''positions_mse''] then Inl TypeError
      else if fn = ''energy_force_within_threshold''
      then energy_force_within_threshold prediction target
      else if fn = ''energy_within_threshold'' then energy_within_threshold prediction target
      else if fn = ''average_distance_within_threshold''
      then average_distance_within_threshold prediction target
      else if fn = ''stress_mae'' then Inl KeyError
      else if fn = ''min_diff'' then Inl TypeError
      else if fn = ''cosine_similarity''
      then cosine_similarity torch_cosine_similarity prediction target key
      else if fn = ''mae'' then by_key mae prediction target key
      else if fn = ''mse'' then by_key mse prediction target key
      else if fn = ''magnitude_error'' then Inl AttributeError
      else Inl NameError)"

section \<open>\<open>Evaluator\<close> (ocpmodels/modules/evaluator.py)\<close>

text \<open>
  A metric specification is a dict from property names to entries, in insertion order. In
  \<open>task_metrics\<close> the entries of \<open>s2ef\<close> and \<open>is2rs\<close> are dicts with the key
  \<open>metrics\<close>; the one entry of \<open>is2re\<close> is a list under the key \<open>metrics\<close>.
\<close>

datatype spec_entry = EDict "(string \<times> string list) list" | EList "string list"

type_synonym metric_spec = "(string \<times> spec_entry) list"

definition task_metrics :: "(string \<times> metric_spec) list" where
  "task_metrics =
     [(''s2ef'',
         [(''energy'', EDict [(''metrics'', [''energy_mae''])]),
          (''forces'', EDict [(''metrics'',
              [''forcesx_mae'', ''forcesy_mae'', ''forcesz_mae'', ''forces_mae'', ''forces_cos'',
               ''forces_magnitude'', ''energy_force_within_threshold''])])]),
      (''is2rs'',
         [(''positions'', EDict [(''metrics'',
              [''average_distance_within_threshold'', ''positions_mae'', ''positions_mse''])])]),
      (''is2re'',
         [(''metrics'', EList [''energy_mae'', ''energy_mse'', ''energy_within_threshold''])])]"

text \<open>\<open>__init__\<close>: \<open>self.target_metrics = self.task_metrics.get(task, eval_metrics)\<close>\<close>

record evaluator =
  task :: "string option"
  target_metrics :: "metric_spec option"

definition Evaluator_init :: "string option \<Rightarrow> metric_spec option \<Rightarrow> evaluator" where
  "Evaluator_init task_arg eval_metrics =
     \<lparr>task = task_arg,
      target_metrics =
        (case task_arg of
           None \<Rightarrow> eval_metrics
         | Some t \<Rightarrow> (case map_of task_metrics t of None \<Rightarrow> eval_metrics | Some tm \<Rightarrow> Some tm))\<rparr>"

text \<open>\<open>sub in s\<close> on Python strings.\<close>

fun starts_with :: "string \<Rightarrow> string \<Rightarrow> bool" where
  "starts_with [] s = True"
| "starts_with (c # cs) [] = False"
| "starts_with (c # cs) (d # ds) = (c = d \<and> starts_with cs ds)"

fun str_in :: "string \<Rightarrow> string \<Rightarrow> bool" where
  "str_in sub [] = (sub = [])"
| "str_in sub (c # cs) = (starts_with sub (c # cs) \<or> str_in sub cs)"

text \<open>
  The two loops of \<open>Evaluator.eval\<close>. \<open>call\<close> stands for Python's dynamic
  \<open>eval(fn)(prediction, target, target_property)\<close>: what evaluating the name and calling
  the value gives. \<open>self.target_metrics[target_property]["metrics"]\<close> raises
  \<open>TypeError\<close> when the entry is a list and \<open>KeyError\<close> when it is a dict without that
  key. An exception ends the run and leaves the table as it then is.
\<close>

fun eval_fns ::
  "(string \<Rightarrow> batch \<Rightarrow> batch \<Rightarrow> string \<Rightarrow> error + stat) \<Rightarrow> batch \<Rightarrow> batch \<Rightarrow> string \<Rightarrow>
   string list \<Rightarrow> metrics_table \<Rightarrow> error option \<times> metrics_table" where
  "eval_fns call prediction target target_property [] metrics = (None, metrics)"
| "eval_fns call prediction target target_property (fn # fns) metrics =
     (let metric_name =
            (if \<not> str_in target_property fn then target_property @ ''_'' @ fn else fn)
      in case call fn prediction target target_property of
           Inl e \<Rightarrow> (Some e, metrics)
         | Inr res \<Rightarrow>
             (case Evaluator_update metric_name res metrics of
                (Some e, m) \<Rightarrow> (Some e, m)
              | (None, m) \<Rightarrow> eval_fns call prediction target target_property fns m))"

fun eval_properties ::
  "(string \<Rightarrow> batch \<Rightarrow> batch \<Rightarrow> string \<Rightarrow> error + stat) \<Rightarrow> batch \<Rightarrow> batch \<Rightarrow>
   metric_spec \<Rightarrow> metrics_table \<Rightarrow> error option \<times> metrics_table" where
  "eval_properties call prediction target [] metrics = (None, metrics)"
| "eval_properties call prediction target ((target_property, e) # rest) metrics =
     (case e of
        EList names \<Rightarrow> (Some TypeError, metrics)
      | EDict d \<Rightarrow>
          (case map_of d ''metrics'' of
             None \<Rightarrow> (Some KeyError, metrics)
           | Some fns \<Rightarrow>
               (case eval_fns call prediction target target_property fns metrics of
                  (Some e, m) \<Rightarrow> (Some e, m)
                | (None, m) \<Rightarrow> eval_properties call prediction target rest m)))"

text \<open>\<open>Evaluator.eval(prediction, target, prev_metrics)\<close>; iterating over \<open>None\<close> raises
  \<open>TypeError\<close>.\<close>

definition Evaluator_eval ::
  "(string \<Rightarrow> batch \<Rightarrow> batch \<Rightarrow> string \<Rightarrow> error + stat) \<Rightarrow> evaluator \<Rightarrow> batch \<Rightarrow> batch \<Rightarrow>
   metrics_table \<Rightarrow> error option \<times> metrics_table" where
  "Evaluator_eval call self prediction target prev_metrics =
     (case target_metrics self of
        None \<Rightarrow> (Some TypeError, prev_metrics)
      | Some tm \<Rightarrow> eval_properties call prediction target tm prev_metrics)"

text \<open>
  A call of \<open>eval\<close> with or without the third argument. The default \<open>prev_metrics={}\<close>
  is one dict object, created when the method is defined and shared by every call and
  every instance: \<open>default_table\<close> is its contents before the call, and the last component
  of the result its contents after it.
\<close>

definition eval_call ::
  "(string \<Rightarrow> batch \<Rightarrow> batch \<Rightarrow> string \<Rightarrow> error + stat) \<Rightarrow> evaluator \<Rightarrow> batch \<Rightarrow> batch \<Rightarrow>
   metrics_table option \<Rightarrow> metrics_table \<Rightarrow> (error option \<times> metrics_table) \<times> metrics_table" where
  "eval_call call self prediction target prev_arg default_table =
     (case prev_arg of
        Some prev_metrics \<Rightarrow> (Evaluator_eval call self prediction target prev_metrics, default_table)
      | None \<Rightarrow>
          (let r = Evaluator_eval call self prediction target default_table in (r, snd r)))"

text \<open>The batch with no key.\<close>

definition no_batch :: batch where
  "no_batch = \<lparr>energy = None, forces = None, positions = None, natoms = None, cell = None, pbc = None\<rparr>"

text \<open>The (property, function name) pairs a specification makes \<open>eval\<close> dispatch, in
  order.\<close>

definition dispatched :: "metric_spec \<Rightarrow> (string \<times> string) list" where
  "dispatched tm =
     concat (map (\<lambda>(p, e). case e of
                               EDict d \<Rightarrow> (case map_of d ''metrics'' of
                                            None \<Rightarrow> []
                                          | Some fns \<Rightarrow> map (Pair p) fns)
                             | EList names \<Rightarrow> []) tm)"

text \<open>
  The metric name by the naming rule in words: the function name when the property name
  occurs in it as a substring, the two joined by an underscore otherwise.
\<close>

definition canonical_name :: "string \<Rightarrow> string \<Rightarrow> string" where
  "canonical_name property fn =
     (if \<exists>pre suf. fn = pre @ property @ suf then fn else property @ ''_'' @ fn)"

text \<open>
  The rows of structure \<open>i\<close> in a per-atom array split by \<open>counts\<close>, and the success test of
  a structure in words: its energy error is below 0.02 and the largest absolute force error
  over its atoms is below 0.03.
\<close>

definition structure_rows :: "nat list \<Rightarrow> 'a list \<Rightarrow> nat \<Rightarrow> 'a list" where
  "structure_rows counts rows i = take (counts ! i) (drop (sum_list (take i counts)) rows)"

definition structure_ok :: "nat list \<Rightarrow> real list \<Rightarrow> vec3 list \<Rightarrow> nat \<Rightarrow> bool" where
  "structure_ok counts error_energy error_forces i \<longleftrightarrow>
     error_energy ! i < 2 / 100
     \<and> Max (set (concat (map comps (structure_rows counts error_forces i)))) < 3 / 100"

text \<open>
  What the naming rule and the merge protocol ask of \<open>eval\<close>, written flat: for every
  dispatched pair in turn, the function is called and its result merged by \<open>update\<close> under
  the name the rule gives; an exception ends the run. A specification is well formed when
  every entry is a dict with the key \<open>metrics\<close>.
\<close>

fun merge_pairs ::
  "(string \<Rightarrow> batch \<Rightarrow> batch \<Rightarrow> string \<Rightarrow> error + stat) \<Rightarrow> batch \<Rightarrow> batch \<Rightarrow>
   (string \<times> string) list \<Rightarrow> metrics_table \<Rightarrow> error option \<times> metrics_table" where
  "merge_pairs call prediction target [] metrics = (None, metrics)"
| "merge_pairs call prediction target ((property, fn) # rest) metrics =
     (case call fn prediction target property of
        Inl e \<Rightarrow> (Some e, metrics)
      | Inr res \<Rightarrow>
          (case Evaluator_update (canonical_name property fn) res metrics of
             (Some e, m) \<Rightarrow> (Some e, m)
           | (None, m) \<Rightarrow> merge_pairs call prediction target rest m))"

definition well_formed :: "metric_spec \<Rightarrow> bool" where
  "well_formed tm =
     list_all (\<lambda>(p, e). case e of
                           EDict d \<Rightarrow> map_of d ''metrics'' \<noteq> None
                         | EList names \<Rightarrow> False) tm"

section \<open>Properties of the accumulator\<close>

subsection \<open>Doubles that are rounded to themselves\<close>

lemma ties_even_int: "ties_even (of_int m) = m"
  by (simp add: ties_even_def)

lemma ulp_exp_le:
  assumes "x \<noteq> 0" "\<bar>x\<bar> < 2 ^ 53 * 2 powr of_int j" "- 1074 \<le> j"
  shows "ulp_exp x \<le> j"
proof -
  have pos: "0 < \<bar>x\<bar>" using assms(1) by simp
  have "(2::real) powr 53 = 2 ^ 53" by (simp add: powr_numeral)
  then have "(2::real) ^ 53 * 2 powr of_int j = 2 powr (53 + of_int j)"
    by (simp only: powr_add)
  then have "\<bar>x\<bar> < 2 powr (53 + of_int j)" using assms(2) by (simp only:)
  then have "log 2 \<bar>x\<bar> < 53 + of_int j"
    using pos by (simp add: log_less_iff)
  then have "log 2 \<bar>x\<bar> < of_int (53 + j)" by simp
  then have "\<lfloor>log 2 \<bar>x\<bar>\<rfloor> < 53 + j" by (simp only: floor_less_iff)
  then show ?thesis using assms(3) by (simp add: ulp_exp_def)
qed

lemma round_double_grid:
  assumes g: "grid j x" and b: "\<bar>x\<bar> < 2 ^ 53 * 2 powr of_int j" and j: "- 1074 \<le> j"
  shows "round_double x = x"
proof (cases "x = 0")
  case True
  then show ?thesis by (simp add: round_double_def)
next
  case False
  obtain k :: int where k: "x = of_int k * 2 powr of_int j" using g by (auto simp: grid_def)
  let ?u = "ulp_exp x"
  have u: "?u \<le> j" by (rule ulp_exp_le[OF False b j])
  define d where "d = nat (j - ?u)"
  define U :: real where "U = 2 powr of_int ?u"
  have Upos: "0 < U" by (simp add: U_def)
  have "(of_int j :: real) = of_int ?u + real d" using u by (simp add: d_def)
  then have "2 powr (of_int j :: real) = U * 2 ^ d"
    by (simp add: powr_add powr_realpow U_def)
  then have xU: "x = of_int (k * 2 ^ d) * U" by (simp add: k)
  then have "x / U = of_int (k * 2 ^ d)" using Upos by simp
  then have "ties_even (x / U) = k * 2 ^ d" by (simp only: ties_even_int)
  then have "round_double x = of_int (k * 2 ^ d) * U"
    using False unfolding round_double_def U_def by simp
  then show ?thesis using xU by simp
qed

lemma grid_of_int: "grid 0 (of_int k)"
  by (auto simp: grid_def)

lemma round_double_of_int: "\<bar>k\<bar> < 2 ^ 53 \<Longrightarrow> round_double (of_int k) = of_int k"
proof -
  assume "\<bar>k\<bar> < 2 ^ 53"
  then have "\<bar>real_of_int k\<bar> < 2 ^ 53" by (metis of_int_abs of_int_less_numeral_power_cancel_iff)
  then show ?thesis by (intro round_double_grid[of 0]) (simp_all add: grid_of_int)
qed

lemma round_double_numeral:
  "(numeral n :: int) < 2 ^ 53 \<Longrightarrow> round_double (numeral n) = numeral n"
  using round_double_of_int[of "numeral n"] by simp

lemma round_double_0: "round_double 0 = 0"
  by (simp add: round_double_def)

lemma round_double_1: "round_double 1 = 1"
  using round_double_of_int[of 1] by simp

lemma round_double_half: "round_double (1 / 2) = 1 / 2"
  by (rule round_double_grid[of "-1"]) (auto simp: grid_def intro: exI[of _ 1])

lemma round_double_tie: "round_double (10 ^ 16 + 1) = 10 ^ 16"
proof -
  let ?x = "10000000000000001 :: real"
  have "\<lfloor>log 2 \<bar>?x\<bar>\<rfloor> = 53"
  proof (rule floor_unique)
    have "(2::real) powr 53 \<le> ?x" by (simp add: powr_numeral)
    then show "of_int 53 \<le> log 2 \<bar>?x\<bar>" by (simp add: le_log_iff)
    have "?x < (2::real) powr 54" by (simp add: powr_numeral)
    then show "log 2 \<bar>?x\<bar> < of_int 53 + 1" by (simp add: log_less_iff)
  qed
  then have u: "ulp_exp ?x = 1" by (simp add: ulp_exp_def)
  have t: "ties_even (?x / 2) = 5000000000000000"
    by (simp add: ties_even_def)
  have "round_double ?x = 10000000000000000"
    by (simp add: round_double_def u t)
  then show ?thesis by simp
qed

lemma round_double_1e16: "round_double (10 ^ 16) = 10 ^ 16"
proof -
  have "grid 16 (10 ^ 16)"
    unfolding grid_def by (rule exI[of _ "5 ^ 16"]) (simp add: powr_numeral)
  then show ?thesis
    by (rule round_double_grid) (simp_all add: powr_numeral)
qed


lemma round_double_2: "round_double 2 = 2"
  using round_double_of_int[of 2] by simp

lemma grid_0: "grid j 0"
  by (auto simp: grid_def intro: exI[of _ 0])

lemma grid_1: "grid 0 1"
  using grid_of_int[of 1] by simp

lemma grid_numeral: "grid 0 (numeral n)"
  using grid_of_int[of "numeral n"] by simp

lemma grid_add: "grid j x \<Longrightarrow> grid j y \<Longrightarrow> grid j (x + y)"
proof -
  assume "grid j x" "grid j y"
  then obtain k l :: int where "x = of_int k * 2 powr of_int j" "y = of_int l * 2 powr of_int j"
    by (auto simp: grid_def)
  then have "x + y = of_int (k + l) * 2 powr of_int j" by (simp add: algebra_simps)
  then show ?thesis unfolding grid_def by blast
qed

lemma grid_sum_list: "\<forall>x\<in>set ts. grid j x \<Longrightarrow> grid j (sum_list ts)"
  by (induction ts) (simp_all add: grid_0 grid_add)

lemma fold_exact:
  "grid j a \<Longrightarrow> \<forall>x\<in>set ts. grid j x \<Longrightarrow> - 1074 \<le> j \<Longrightarrow>
   \<bar>a\<bar> + sum_list (map abs ts) < 2 ^ 53 * 2 powr of_int j \<Longrightarrow>
   foldl (\<lambda>a x. round_double (a + x)) a ts = a + sum_list ts"
proof (induction ts arbitrary: a)
  case Nil
  then show ?case by simp
next
  case (Cons x ts)
  have g: "grid j (a + x)" using Cons.prems(1,2) by (simp add: grid_add)
  have "0 \<le> sum_list (map abs ts)" by (rule sum_list_nonneg) auto
  then have b: "\<bar>a + x\<bar> < 2 ^ 53 * 2 powr of_int j" using Cons.prems(4) by simp
  have r: "round_double (a + x) = a + x" by (rule round_double_grid[OF g b Cons.prems(3)])
  have "\<bar>a + x\<bar> + sum_list (map abs ts) < 2 ^ 53 * 2 powr of_int j"
    using Cons.prems(4) by simp
  from Cons.IH[OF g _ Cons.prems(3) this] Cons.prems(2)
  show ?case by (simp add: r add.assoc)
qed

lemma fsum_exact:
  "\<forall>x\<in>set ts. grid j x \<Longrightarrow> - 1074 \<le> j \<Longrightarrow>
   sum_list (map abs ts) < 2 ^ 53 * 2 powr of_int j \<Longrightarrow> fsum ts = sum_list ts"
  unfolding fsum_def using fold_exact[of j 0 ts] by (simp add: grid_0)

subsection \<open>One update, and a run of updates\<close>

lemma seed_entry: "seed key t key = Some (entry key t)"
  by (simp add: seed_def entry_def split: option.splits)

lemma seed_upd: "(seed key t)(key \<mapsto> r) = t(key \<mapsto> r)"
  by (simp add: seed_def split: option.splits)

lemma accumulate_seed:
  "accumulate key x n (seed key t) =
     (if numel (entry key t) + n = 0
      then (Some ZeroDivisionError,
            t(key \<mapsto> (entry key t)\<lparr>total := round_double (total (entry key t) + x),
                                      numel := numel (entry key t) + n\<rparr>))
      else (None, t(key \<mapsto>
              \<lparr>metric = Some (round_double (round_double (total (entry key t) + x)
                                / round_double (of_int (numel (entry key t) + n)))),
               total = round_double (total (entry key t) + x),
               numel = numel (entry key t) + n\<rparr>)))"
  by (cases "entry key t") (simp add: accumulate_def seed_entry seed_upd Let_def)

lemma update_observation:
  "is_observation s \<Longrightarrow>
   Evaluator_update key s t =
     (if numel (entry key t) + stat_numel s = 0
      then (Some ZeroDivisionError,
            t(key \<mapsto> (entry key t)\<lparr>total := round_double (total (entry key t) + stat_total s),
                                      numel := numel (entry key t) + stat_numel s\<rparr>))
      else (None, t(key \<mapsto>
              \<lparr>metric = Some (round_double (round_double (total (entry key t) + stat_total s)
                                / round_double (of_int (numel (entry key t) + stat_numel s)))),
               total = round_double (total (entry key t) + stat_total s),
               numel = numel (entry key t) + stat_numel s\<rparr>)))"
  by (cases s) (simp_all add: accumulate_seed)

lemma no_rounding_first:
  assumes "no_rounding j r (s # ss)" "- 1074 \<le> j"
  shows "round_double (total r + stat_total s) = total r + stat_total s"
proof -
  have g: "grid j (total r + stat_total s)"
    using assms(1) by (simp add: no_rounding_def grid_add)
  have nn: "0 \<le> sum_list (map (\<lambda>s. \<bar>stat_total s\<bar>) ss)" by (rule sum_list_nonneg) auto
  have "\<bar>total r\<bar> + (\<bar>stat_total s\<bar> + sum_list (map (\<lambda>s. \<bar>stat_total s\<bar>) ss))
          < 2 ^ 53 * 2 powr of_int j"
    using assms(1) by (simp add: no_rounding_def)
  then have b: "\<bar>total r + stat_total s\<bar> < 2 ^ 53 * 2 powr of_int j"
    using nn by linarith
  show ?thesis by (rule round_double_grid[OF g b assms(2)])
qed

lemma no_rounding_rest:
  assumes "no_rounding j r (s # ss)"
  shows "no_rounding j (merged r [s]) ss"
proof -
  have g: "grid j (total r + stat_total s)"
    using assms by (simp add: no_rounding_def grid_add)
  have "\<bar>total r\<bar> + (\<bar>stat_total s\<bar> + sum_list (map (\<lambda>s. \<bar>stat_total s\<bar>) ss))
          < 2 ^ 53 * 2 powr of_int j"
    using assms by (simp add: no_rounding_def)
  then have "\<bar>total r + stat_total s\<bar> + sum_list (map (\<lambda>s. \<bar>stat_total s\<bar>) ss)
          < 2 ^ 53 * 2 powr of_int j"
    by linarith
  then show ?thesis using g assms by (simp add: no_rounding_def merged_def)
qed

lemma update_step:
  "is_observation s \<Longrightarrow> no_rounding j (entry key t) (s # ss) \<Longrightarrow> - 1074 \<le> j \<Longrightarrow>
   numel (entry key t) + stat_numel s \<noteq> 0 \<Longrightarrow>
   Evaluator_update key s t = (None, t(key \<mapsto> merged (entry key t) [s]))"
  by (simp add: update_observation merged_def no_rounding_first)

lemma update_step_fails:
  "is_observation s \<Longrightarrow> numel (entry key t) + stat_numel s = 0 \<Longrightarrow>
   fst (Evaluator_update key s t) = Some ZeroDivisionError"
  by (simp add: update_observation)

lemma entry_upd: "entry key (t(key \<mapsto> r)) = r"
  by (simp add: entry_def)

lemma merged_Cons: "merged (merged r [s]) ss = merged r (s # ss)"
  by (simp add: merged_def add.assoc)

lemma update_all_closed:
  "\<forall>s\<in>set xs. is_observation s \<Longrightarrow> no_rounding j (entry key t) xs \<Longrightarrow> - 1074 \<le> j \<Longrightarrow>
   xs \<noteq> [] \<Longrightarrow> fst (update_all key xs t) = None \<Longrightarrow>
   snd (update_all key xs t) = t(key \<mapsto> merged (entry key t) xs)"
proof (induction xs arbitrary: t)
  case Nil
  then show ?case by simp
next
  case (Cons s ss)
  have obs: "is_observation s" using Cons.prems(1) by simp
  have nz: "numel (entry key t) + stat_numel s \<noteq> 0"
  proof
    assume "numel (entry key t) + stat_numel s = 0"
    from update_step_fails[OF obs this] have "fst (update_all key (s # ss) t) \<noteq> None"
      by (cases "Evaluator_update key s t") auto
    with Cons.prems(5) show False by simp
  qed
  let ?m = "t(key \<mapsto> merged (entry key t) [s])"
  have a: "update_all key (s # ss) t = update_all key ss ?m"
    by (simp add: update_step[OF obs Cons.prems(2,3) nz])
  show ?case
  proof (cases "ss = []")
    case True
    then show ?thesis by (simp add: update_step[OF obs Cons.prems(2,3) nz])
  next
    case ne: False
    have f: "fst (update_all key ss ?m) = None" using Cons.prems(5) a by simp
    have o: "\<forall>s\<in>set ss. is_observation s" using Cons.prems(1) by simp
    have nr: "no_rounding j (entry key ?m) ss"
      using no_rounding_rest[OF Cons.prems(2)] by (simp add: entry_upd)
    have "snd (update_all key ss ?m) = ?m(key \<mapsto> merged (entry key ?m) ss)"
      by (rule Cons.IH[OF o nr Cons.prems(3) ne f])
    also have "\<dots> = t(key \<mapsto> merged (entry key t) (s # ss))"
      by (simp add: entry_upd merged_Cons)
    finally show ?thesis by (simp only: a)
  qed
qed

lemma update_all_succeeds:
  "\<forall>s\<in>set xs. is_observation s \<and> 0 < stat_numel s \<Longrightarrow> 0 \<le> numel (entry key t) \<Longrightarrow>
   fst (update_all key xs t) = None"
proof (induction xs arbitrary: t)
  case Nil
  then show ?case by simp
next
  case (Cons s ss)
  have obs: "is_observation s" and pos: "0 < stat_numel s" using Cons.prems(1) by simp_all
  have nz: "numel (entry key t) + stat_numel s \<noteq> 0" using pos Cons.prems(2) by linarith
  obtain m where step: "Evaluator_update key s t = (None, m)"
    and n: "numel (entry key m) = numel (entry key t) + stat_numel s"
    using obs nz by (simp add: update_observation entry_upd)
  have n0: "0 \<le> numel (entry key m)" using n pos Cons.prems(2) by simp
  have o: "\<forall>s\<in>set ss. is_observation s \<and> 0 < stat_numel s" using Cons.prems(1) by simp
  have "update_all key (s # ss) t = update_all key ss m" using step by simp
  then show ?case by (simp only: Cons.IH[OF o n0])
qed

lemma presum_numel: "stat_numel (presum g) = sum_list (map stat_numel g)"
  by (simp add: presum_def Let_def)

lemma presum_total_fsum: "stat_total (presum g) = fsum (map stat_total g)"
  by (simp add: presum_def Let_def)

lemma presum_observation: "is_observation (presum g)"
  by (simp add: presum_def Let_def)

lemma sum_list_mset_cong:
  fixes f :: "'a \<Rightarrow> 'b::comm_monoid_add"
  shows "mset xs = mset ys \<Longrightarrow> sum_list (map f xs) = sum_list (map f ys)"
  by (metis mset_map sum_mset_sum_list)

lemma pos_sum_list: "xs \<noteq> [] \<Longrightarrow> \<forall>x\<in>set xs. (0::int) < f x \<Longrightarrow> 0 < sum_list (map f xs)"
proof (induction xs)
  case Nil
  then show ?case by simp
next
  case (Cons a xs)
  have "0 \<le> sum_list (map f xs)" using Cons.prems(2) by (intro sum_list_nonneg) auto
  moreover have "0 < f a" using Cons.prems(2) by simp
  ultimately show ?case by simp
qed

lemma group_le_concat:
  fixes f :: "'a \<Rightarrow> real"
  shows "g \<in> set gs \<Longrightarrow> sum_list (map (\<lambda>x. \<bar>f x\<bar>) g) \<le> sum_list (map (\<lambda>x. \<bar>f x\<bar>) (concat gs))"
proof (induction gs)
  case Nil
  then show ?case by simp
next
  case (Cons h gs)
  have nn: "\<And>ys. 0 \<le> sum_list (map (\<lambda>x. \<bar>f x\<bar>) ys)" by (rule sum_list_nonneg) auto
  show ?case
  proof (cases "g = h")
    case True
    then show ?thesis using nn[of "concat gs"] by simp
  next
    case False
    then have "g \<in> set gs" using Cons.prems by simp
    from Cons.IH[OF this] show ?thesis using nn[of h] by simp
  qed
qed

lemma abs_sum_list_le:
  fixes f :: "'a \<Rightarrow> real"
  shows "\<bar>sum_list (map f g)\<bar> \<le> sum_list (map (\<lambda>x. \<bar>f x\<bar>) g)"
  by (induction g) auto

lemma groups_abs_le:
  fixes f :: "'a \<Rightarrow> real"
  shows "sum_list (map (\<lambda>g. \<bar>sum_list (map f g)\<bar>) gs) \<le> sum_list (map (\<lambda>x. \<bar>f x\<bar>) (concat gs))"
proof (induction gs)
  case Nil
  then show ?case by simp
next
  case (Cons g gs)
  then show ?case using abs_sum_list_le[of f g] by simp
qed

lemma sum_groups:
  fixes f :: "'a \<Rightarrow> 'b::comm_monoid_add"
  shows "sum_list (map (\<lambda>g. sum_list (map f g)) gs) = sum_list (map f (concat gs))"
  by (induction gs) simp_all

text \<open>Under \<open>no_rounding\<close>, pre-summing a sub-group in floats gives the exact sum.\<close>

lemma presum_exact:
  assumes nr: "no_rounding j r xs" and j: "- 1074 \<le> j"
    and part: "mset (concat gs) = mset xs" and g: "g \<in> set gs"
  shows "stat_total (presum g) = sum_list (map stat_total g)"
proof -
  have sub: "set g \<subseteq> set xs"
  proof -
    have "set g \<subseteq> set (concat gs)" using g by auto
    also have "\<dots> = set xs" using part by (metis set_mset_mset)
    finally show ?thesis .
  qed
  have gr: "\<forall>x\<in>set (map stat_total g). grid j x"
    using nr sub by (auto simp: no_rounding_def)
  have "sum_list (map (\<lambda>s. \<bar>stat_total s\<bar>) g)
          \<le> sum_list (map (\<lambda>s. \<bar>stat_total s\<bar>) (concat gs))"
    by (rule group_le_concat[OF g])
  also have "\<dots> = sum_list (map (\<lambda>s. \<bar>stat_total s\<bar>) xs)"
    by (rule sum_list_mset_cong[OF part])
  also have "\<dots> < 2 ^ 53 * 2 powr of_int j"
  proof -
    have "\<bar>total r\<bar> + sum_list (map (\<lambda>s. \<bar>stat_total s\<bar>) xs) < 2 ^ 53 * 2 powr of_int j"
      using nr by (simp add: no_rounding_def)
    then show ?thesis by linarith
  qed
  finally have "sum_list (map abs (map stat_total g)) < 2 ^ 53 * 2 powr of_int j"
    by (simp add: comp_def)
  from fsum_exact[OF gr j this] show ?thesis by (simp add: presum_total_fsum)
qed

lemma presum_totals:
  assumes nr: "no_rounding j r xs" and j: "- 1074 \<le> j"
    and part: "mset (concat gs) = mset xs"
  shows "map stat_total (map presum gs) = map (\<lambda>g. sum_list (map stat_total g)) gs"
  using presum_exact[OF nr j part] by simp

lemma no_rounding_groups:
  assumes nr: "no_rounding j r xs" and j: "- 1074 \<le> j"
    and part: "mset (concat gs) = mset xs"
  shows "no_rounding j r (map presum gs)"
proof -
  have t: "map stat_total (map presum gs) = map (\<lambda>g. sum_list (map stat_total g)) gs"
    by (rule presum_totals[OF nr j part])
  have gr: "\<forall>s\<in>set (map presum gs). grid j (stat_total s)"
  proof
    fix s assume "s \<in> set (map presum gs)"
    then obtain g where g: "g \<in> set gs" "s = presum g" by auto
    have "set g \<subseteq> set (concat gs)" using g(1) by auto
    also have "\<dots> = set xs" using part by (metis set_mset_mset)
    finally have "\<forall>x\<in>set (map stat_total g). grid j x"
      using nr by (auto simp: no_rounding_def)
    then have "grid j (sum_list (map stat_total g))" by (rule grid_sum_list)
    then show "grid j (stat_total s)" by (simp add: g(2) presum_exact[OF nr j part g(1)])
  qed
  have "sum_list (map (\<lambda>s. \<bar>stat_total s\<bar>) (map presum gs))
          = sum_list (map abs (map stat_total (map presum gs)))" by (simp add: comp_def)
  also have "\<dots> = sum_list (map (\<lambda>g. \<bar>sum_list (map stat_total g)\<bar>) gs)"
    by (simp only: t) (simp add: comp_def)
  also have "\<dots> \<le> sum_list (map (\<lambda>s. \<bar>stat_total s\<bar>) (concat gs))"
    by (rule groups_abs_le)
  also have "\<dots> = sum_list (map (\<lambda>s. \<bar>stat_total s\<bar>) xs)"
    by (rule sum_list_mset_cong[OF part])
  finally have "sum_list (map (\<lambda>s. \<bar>stat_total s\<bar>) (map presum gs))
                  \<le> sum_list (map (\<lambda>s. \<bar>stat_total s\<bar>) xs)" .
  then show ?thesis using nr gr by (simp add: no_rounding_def)
qed

text \<open>
  Claim C1, as amended. Let \<open>xs\<close> be updates under one name, each a scalar or a
  pre-aggregated record, such that no float addition of their totals and of the total the
  table starts with rounds (\<open>no_rounding\<close>: all are multiples of one power of two and their
  absolute values sum to less than \<open>2\<^sup>5\<^sup>3\<close> times it, as integer totals below
  \<open>2\<^sup>5\<^sup>3\<close> do; the exponent \<open>j\<close> of that power is in the range of the doubles), and let \<open>gs\<close> be non-empty sub-groups whose concatenation is a
  permutation of \<open>xs\<close>. Whenever folding \<open>xs\<close> one at a time and folding the pre-summed
  sub-group records both return, they leave the same table; the entry then holds the sums
  of the totals and of the counts, with \<open>metric\<close> the double nearest to
  \<open>total / numel\<close> (for a count below \<open>2\<^sup>5\<^sup>3\<close>). Both folds do return when every update has a positive \<open>numel\<close> and the entry
  the table starts with has a non-negative one.
\<close>

theorem update_grouping_independent:
  assumes obs: "\<forall>s\<in>set xs. is_observation s"
    and ne: "\<forall>g\<in>set gs. g \<noteq> []"
    and part: "mset (concat gs) = mset xs"
    and j: "- 1074 \<le> j" and j_max: "j \<le> 971"
    and nr: "no_rounding j (entry key t) xs"
  shows "(fst (update_all key xs t) = None \<and> fst (update_all key (map presum gs) t) = None
            \<longrightarrow> snd (update_all key xs t) = snd (update_all key (map presum gs) t))
       \<and> (fst (update_all key xs t) = None \<and> xs \<noteq> []
           \<and> \<bar>numel (entry key t) + sum_list (map stat_numel xs)\<bar> < 2 ^ 53
            \<longrightarrow> snd (update_all key xs t) key =
                  Some \<lparr>metric = Some (round_double
                            ((total (entry key t) + sum_list (map stat_total xs))
                             / of_int (numel (entry key t) + sum_list (map stat_numel xs)))),
                        total = total (entry key t) + sum_list (map stat_total xs),
                        numel = numel (entry key t) + sum_list (map stat_numel xs)\<rparr>)
       \<and> ((\<forall>s\<in>set xs. 0 < stat_numel s) \<and> 0 \<le> numel (entry key t)
            \<longrightarrow> fst (update_all key xs t) = None
                \<and> fst (update_all key (map presum gs) t) = None)"
proof (intro conjI impI)
  assume ok: "fst (update_all key xs t) = None \<and> fst (update_all key (map presum gs) t) = None"
  have gobs: "\<forall>s\<in>set (map presum gs). is_observation s"
    by (simp add: presum_observation)
  have gnr: "no_rounding j (entry key t) (map presum gs)"
    by (rule no_rounding_groups[OF nr j part])
  have "sum_list (map stat_total (map presum gs))
          = sum_list (map (\<lambda>g. sum_list (map stat_total g)) gs)"
    by (simp only: presum_totals[OF nr j part])
  also have "\<dots> = sum_list (map stat_total (concat gs))" by (rule sum_groups)
  also have "\<dots> = sum_list (map stat_total xs)" by (rule sum_list_mset_cong[OF part])
  finally have tot: "sum_list (map stat_total (map presum gs)) = sum_list (map stat_total xs)" .
  have "sum_list (map stat_numel (map presum gs))
          = sum_list (map (\<lambda>g. sum_list (map stat_numel g)) gs)"
    by (simp add: comp_def presum_numel)
  also have "\<dots> = sum_list (map stat_numel (concat gs))" by (rule sum_groups)
  also have "\<dots> = sum_list (map stat_numel xs)" by (rule sum_list_mset_cong[OF part])
  finally have num: "sum_list (map stat_numel (map presum gs)) = sum_list (map stat_numel xs)" .
  show "snd (update_all key xs t) = snd (update_all key (map presum gs) t)"
  proof (cases "xs = []")
    case True
    then have "concat gs = []" using part by simp
    then have "gs = []" using ne by (cases gs) auto
    with True show ?thesis by simp
  next
    case False
    then have "concat gs \<noteq> []" using part by (metis mset_zero_iff)
    then have gne: "map presum gs \<noteq> []" by auto
    have "merged (entry key t) (map presum gs) = merged (entry key t) xs"
      by (simp only: merged_def tot num)
    then show ?thesis
      using update_all_closed[OF obs nr j False] update_all_closed[OF gobs gnr j gne] ok
      by simp
  qed
next
  assume a: "fst (update_all key xs t) = None \<and> xs \<noteq> []
           \<and> \<bar>numel (entry key t) + sum_list (map stat_numel xs)\<bar> < 2 ^ 53"
  then have "round_double (of_int (numel (entry key t) + sum_list (map stat_numel xs)))
               = of_int (numel (entry key t) + sum_list (map stat_numel xs))"
    by (intro round_double_of_int) simp
  then show "snd (update_all key xs t) key =
                  Some \<lparr>metric = Some (round_double
                            ((total (entry key t) + sum_list (map stat_total xs))
                             / of_int (numel (entry key t) + sum_list (map stat_numel xs)))),
                        total = total (entry key t) + sum_list (map stat_total xs),
                        numel = numel (entry key t) + sum_list (map stat_numel xs)\<rparr>"
    using update_all_closed[OF obs nr j] a by (simp add: merged_def)
next
  assume pos: "(\<forall>s\<in>set xs. 0 < stat_numel s) \<and> 0 \<le> numel (entry key t)"
  then show "fst (update_all key xs t) = None"
    using obs by (intro update_all_succeeds) auto
next
  assume pos: "(\<forall>s\<in>set xs. 0 < stat_numel s) \<and> 0 \<le> numel (entry key t)"
  have "\<forall>s\<in>set (map presum gs). is_observation s \<and> 0 < stat_numel s"
  proof
    fix s assume "s \<in> set (map presum gs)"
    then obtain g where g: "g \<in> set gs" "s = presum g" by auto
    have "set g \<subseteq> set (concat gs)" using g(1) by auto
    also have "\<dots> = set xs" using part by (metis set_mset_mset)
    finally have "\<forall>x\<in>set g. 0 < stat_numel x" using pos by auto
    moreover have "g \<noteq> []" using ne g(1) by simp
    ultimately have "0 < sum_list (map stat_numel g)" by (intro pos_sum_list)
    then show "is_observation s \<and> 0 < stat_numel s"
      by (simp add: g(2) presum_observation presum_numel)
  qed
  then show "fst (update_all key (map presum gs) t) = None"
    using pos by (intro update_all_succeeds) auto
qed

theorem update_grouping_independent_witness:
  "fst (update_all ''forcesx_mae'' [StatNum 1, StatDict (Fin 2) 4 2, StatNum 3] Map.empty) = None
   \<and> snd (update_all ''forcesx_mae'' [StatNum 1, StatDict (Fin 2) 4 2, StatNum 3] Map.empty)
     = snd (update_all ''forcesx_mae''
              (map presum [[StatNum 3, StatNum 1], [StatDict (Fin 2) 4 2]]) Map.empty)
   \<and> snd (update_all ''forcesx_mae'' [StatNum 1, StatDict (Fin 2) 4 2, StatNum 3] Map.empty)
         ''forcesx_mae'' = Some \<lparr>metric = Some 2, total = 8, numel = 4\<rparr>"
proof -
  have nr: "no_rounding 0 (entry ''forcesx_mae'' Map.empty)
              [StatNum 1, StatDict (Fin 2) 4 2, StatNum 3]"
    by (simp add: no_rounding_def entry_def zero_record_def grid_0 grid_1 grid_numeral)
  from update_grouping_independent
    [of "[StatNum 1, StatDict (Fin 2) 4 2, StatNum 3]"
        "[[StatNum 3, StatNum 1], [StatDict (Fin 2) 4 2]]" 0 "''forcesx_mae''" Map.empty, OF _ _ _ _ _ nr]
  show ?thesis
    by (simp add: entry_def zero_record_def accumulate_def seed_def presum_def fsum_def
        round_double_0 round_double_1 round_double_numeral round_double_2)
qed

text \<open>
  The claim as stated fails where a partial count is zero: an update with
  \<open>numel = 0\<close> (what \<open>mae\<close> returns on an empty tensor) applied first raises
  \<open>ZeroDivisionError\<close>, while the same two updates pre-summed into one record merge.
\<close>

theorem update_grouping_counterexample:
  "fst (update_all ''energy_mae'' [StatDict NaN 0 0, StatDict (Fin 1) 1 1] Map.empty)
     = Some ZeroDivisionError
   \<and> fst (update_all ''energy_mae'' (map presum [[StatDict NaN 0 0, StatDict (Fin 1) 1 1]])
            Map.empty) = None
   \<and> snd (update_all ''energy_mae'' (map presum [[StatDict NaN 0 0, StatDict (Fin 1) 1 1]])
            Map.empty) ''energy_mae'' = Some \<lparr>metric = Some 1, total = 1, numel = 1\<rparr>"
  by (simp add: presum_def fsum_def accumulate_def seed_def zero_record_def
      round_double_0 round_double_1)

text \<open>
  It also fails where a float addition rounds. The totals \<open>1e16, 1.0, -1e16\<close> folded one
  at a time give the total \<open>0.0\<close>, since \<open>1e16 + 1.0\<close> is a tie and rounds to \<open>1e16\<close>;
  grouped as \<open>[1e16, -1e16]\<close> and \<open>[1.0]\<close> they give \<open>1.0\<close>. Nothing raises in either
  run.
\<close>

theorem update_float_order_dependent:
  "fst (update_all ''forces_mae'' [StatNum (10 ^ 16), StatNum 1, StatNum (- (10 ^ 16))] Map.empty)
     = None
   \<and> map_option total
        (snd (update_all ''forces_mae'' [StatNum (10 ^ 16), StatNum 1, StatNum (- (10 ^ 16))]
                Map.empty) ''forces_mae'') = Some 0
   \<and> fst (update_all ''forces_mae''
            (map presum [[StatNum (10 ^ 16), StatNum (- (10 ^ 16))], [StatNum 1]]) Map.empty)
     = None
   \<and> map_option total
        (snd (update_all ''forces_mae''
                (map presum [[StatNum (10 ^ 16), StatNum (- (10 ^ 16))], [StatNum 1]])
                Map.empty) ''forces_mae'') = Some 1"
proof -
  have a: "round_double 10000000000000000 = 10000000000000000"
    using round_double_1e16 by simp
  have b: "round_double 10000000000000001 = 10000000000000000"
    using round_double_tie by simp
  show ?thesis
    by (simp add: presum_def fsum_def accumulate_def seed_def zero_record_def
        round_double_0 round_double_1 a b)
qed

text \<open>
  Claim C10. For every table and every name, \<open>update\<close> with a tensor raises
  \<open>NotImplementedError\<close>; when the name was absent the zero record has been seeded under
  it by then, so the table is changed although the call failed; when the name was present
  the table is left as it was.
\<close>

theorem update_tensor_not_atomic:
  "fst (Evaluator_update key StatTensor metrics) = Some NotImplementedError
   \<and> (metrics key = None \<longrightarrow>
        snd (Evaluator_update key StatTensor metrics) = metrics(key \<mapsto> zero_record)
        \<and> snd (Evaluator_update key StatTensor metrics) \<noteq> metrics)
   \<and> (metrics key \<noteq> None \<longrightarrow> snd (Evaluator_update key StatTensor metrics) = metrics)"
proof -
  have "metrics key = None \<Longrightarrow> metrics(key \<mapsto> zero_record) \<noteq> metrics"
    by (metis fun_upd_same option.distinct(1))
  then show ?thesis by (auto simp: seed_def)
qed

theorem update_tensor_not_atomic_witness:
  "fst (Evaluator_update ''forces_mae'' StatTensor Map.empty) = Some NotImplementedError
   \<and> snd (Evaluator_update ''forces_mae'' StatTensor Map.empty) ''forces_mae''
       = Some \<lparr>metric = None, total = 0, numel = 0\<rparr>
   \<and> snd (Evaluator_update ''forces_mae'' StatTensor Map.empty) \<noteq> Map.empty"
  using update_tensor_not_atomic [of "''forces_mae''" Map.empty]
  by (simp add: zero_record_def)

section \<open>Properties of the normalizer\<close>

lemma map2_replicate: "map2 f xs (replicate (length xs) b) = map (\<lambda>x. f x b) xs"
  by (induction xs) simp_all

lemma length_chan: "fits p (T1 xs) \<Longrightarrow> length (chan p (length xs)) = length xs"
  by (cases p) auto

lemma bzip_fit:
  "length ps = length xs \<or> length ps = 1 \<Longrightarrow>
   bzip e f xs ps = Inr (map2 f xs (chan (T1 ps) (length xs)))"
  by (auto simp: bzip_def map2_replicate)

lemma collect_Inr: "collect (map (\<lambda>x. Inr (g x)) xs) = Inr (map g xs)"
  by (induction xs) (simp_all add: rbind_def)

lemma collect_bzip_fit:
  "list_all (\<lambda>xs. length ps = length xs \<or> length ps = 1) xss \<Longrightarrow>
   collect (map (\<lambda>xs. bzip e f xs ps) xss)
     = Inr (map (\<lambda>xs. map2 f xs (chan (T1 ps) (length xs))) xss)"
  by (induction xss) (simp_all add: rbind_def bzip_fit)

lemma bop_fit: "fits p x \<Longrightarrow> bop f x p = Inr (ew f x p)"
proof (cases p)
  case (T0 b)
  then show ?thesis by (cases x) (simp_all add: map2_replicate)
next
  case (T1 ps)
  assume "fits p x"
  with T1 show ?thesis
    by (cases x) (simp_all add: rbind_def bzip_fit collect_bzip_fit del: chan.simps)
next
  case (T2 pss)
  assume "fits p x"
  with T2 show ?thesis by simp
qed

lemma fits_ew: "fits q x \<Longrightarrow> fits p x \<Longrightarrow> fits p (ew f x q)"
  by (cases p; cases x; cases q) (auto simp: list_all_iff)

lemma chan_subset:
  "length xs = n \<Longrightarrow> fits p (T1 xs) \<Longrightarrow> set (chan p n) \<subseteq> set (entries p)"
  by (cases p) (auto simp: hd_in_set length_Suc_conv)

lemma roundtrip_real: "c \<noteq> 0 \<Longrightarrow> (a - b) / c * c + b = (a::real)"
  by simp

lemma roundtrip_list:
  fixes xs :: "real list"
  assumes "length ms = length xs" "length ss = length xs" "0 \<notin> set ss"
  shows "map2 (+) (map2 (*) (map2 (/) (map2 (-) xs ms) ss) ss) ms = xs"
proof (rule nth_equalityI)
  show "length (map2 (+) (map2 (*) (map2 (/) (map2 (-) xs ms) ss) ss) ms) = length xs"
    using assms by simp
next
  fix i assume "i < length (map2 (+) (map2 (*) (map2 (/) (map2 (-) xs ms) ss) ss) ms)"
  then have i: "i < length xs" using assms by simp
  then have "ss ! i \<in> set ss" using assms(2) by simp
  then have "ss ! i \<noteq> 0" using assms(3) by metis
  then show "map2 (+) (map2 (*) (map2 (/) (map2 (-) xs ms) ss) ss) ms ! i = xs ! i"
    using i assms(1,2) by (simp add: roundtrip_real)
qed

lemma map2_snd: "length cs = length xs \<Longrightarrow> map2 (\<lambda>a b. b) xs cs = cs"
  by (rule nth_equalityI) simp_all

lemma row_fits: "fits p (T2 xss) \<Longrightarrow> xs \<in> set xss \<Longrightarrow> fits p (T1 xs)"
  by (cases p) (auto simp: list_all_iff)

lemma divisors_nonzero:
  assumes "fits s x" "0 \<notin> set (entries s)"
  shows "0 \<notin> set (entries (ew (\<lambda>a b. b) x s))"
proof (cases x)
  case (T0 a)
  with assms show ?thesis by (cases s) auto
next
  case (T1 xs)
  with assms chan_subset[of xs "length xs" s] show ?thesis
    by (auto simp: map2_snd length_chan)
next
  case (T2 xss)
  have "\<And>xs. xs \<in> set xss \<Longrightarrow> 0 \<notin> set (chan s (length xs))"
    using assms T2 chan_subset row_fits by (metis subsetD)
  with assms T2 show ?thesis
    by (auto simp: map2_snd length_chan row_fits)
qed

lemma ew_roundtrip:
  assumes "fits m x" "fits s x" "0 \<notin> set (entries s)"
  shows "ew (+) (ew (*) (ew (/) (ew (-) x m) s) s) m = x"
proof (cases x)
  case (T0 a)
  with assms show ?thesis by (cases s; cases m) auto
next
  case (T1 xs)
  have "0 \<notin> set (chan s (length xs))"
    using assms T1 chan_subset[of xs "length xs" s] by auto
  with assms T1 show ?thesis by (simp add: roundtrip_list length_chan)
next
  case (T2 xss)
  have "\<And>xs. xs \<in> set xss \<Longrightarrow> 0 \<notin> set (chan s (length xs))"
    using assms T2 chan_subset row_fits by (metis subsetD)
  with assms T2 show ?thesis
    by (auto simp: roundtrip_list length_chan row_fits intro!: map_idI)
qed

text \<open>
  Claim C6. For every normalizer whose mean and std are scalars or per-channel vectors
  that fit the input's shape, and whose std has no zero entry, \<open>norm\<close> returns and
  \<open>denorm\<close> of its result is the input itself, over exact arithmetic.
\<close>

theorem denorm_norm:
  assumes "fits (mean self) x" "fits (std self) x" "0 \<notin> set (entries (std self))"
  shows "rbind (norm self x) (denorm self) = Inr x"
proof -
  let ?d = "ew (-) x (mean self)"
  let ?q = "ew (/) ?d (std self)"
  let ?p = "ew (*) ?q (std self)"
  have f1: "fits (std self) ?d" using assms by (simp add: fits_ew)
  have f2: "fits (std self) ?q" using f1 by (simp add: fits_ew)
  have f3: "fits (mean self) ?q" using assms f1 by (simp add: fits_ew)
  have f4: "fits (mean self) ?p" using f2 f3 by (simp add: fits_ew)
  have nz: "\<not> list_ex (\<lambda>b. b = 0) (entries (ew (\<lambda>a b. b) ?d (std self)))"
    using divisors_nonzero[OF f1 assms(3)] by (auto simp: list_ex_iff)
  have n: "norm self x = Inr ?q"
    using assms(1) f1 nz by (simp add: norm_def tdiv_def rbind_def bop_fit)
  have d: "denorm self ?q = Inr (ew (+) ?p (mean self))"
    using f2 f4 by (simp add: denorm_def rbind_def bop_fit)
  show ?thesis
    by (simp add: n d rbind_def ew_roundtrip[OF assms])
qed

theorem denorm_norm_witness:
  "rbind (norm \<lparr>mean = T1 [1, 2], std = T0 4\<rparr> (T2 [[3, 4], [5, 8]]))
         (denorm \<lparr>mean = T1 [1, 2], std = T0 4\<rparr>) = Inr (T2 [[3, 4], [5, 8]])
   \<and> norm \<lparr>mean = T1 [1, 2], std = T0 4\<rparr> (T2 [[3, 4], [5, 8]])
       = Inr (T2 [[1/2, 1/2], [1, 3/2]])"
  using denorm_norm [of "\<lparr>mean = T1 [1, 2], std = T0 4\<rparr>" "T2 [[3, 4], [5, 8]]"]
  by (simp add: norm_def tdiv_def rbind_def bzip_def)

text \<open>
  Claim C7 (the code departs from it). Given only a sample tensor, \<open>create_normalizer\<close>
  raises \<open>ValueError\<close>: the branch that computes the statistics of the sample is guarded
  by \<open>mean is not None and std is not None\<close>, so it is skipped, and the final test
  finds \<open>mean\<close> still \<open>None\<close>.
\<close>

theorem create_normalizer_tensor_only:
  "create_normalizer super_load torch_mean torch_std None None (Some sample) None None
     = Inl ValueError"
  by (simp add: create_normalizer_def rbind_def)

section \<open>Properties of \<open>min_diff\<close>\<close>

lemma solve_row_identity: "solve_row cell_identity d = d"
  by (cases d) (simp add: cell_identity_def)

lemma vecmat_identity: "vecmat v cell_identity = v"
  by (cases v) (simp add: cell_identity_def)

lemma det3_identity: "det3 cell_identity = 1"
  by (simp add: cell_identity_def)

lemma pymod1_range: "0 \<le> pymod1 x \<and> pymod1 x < 1"
  unfolding pymod1_def by linarith

lemma shift_half_range: "0 \<le> y \<Longrightarrow> y < 1 \<Longrightarrow> - 1 / 2 < shift_half y \<and> shift_half y \<le> 1 / 2"
  by (simp add: shift_half_def)

lemma wrap_range: "- 1 / 2 < shift_half (pymod1 (pymod1 x)) \<and> shift_half (pymod1 (pymod1 x)) \<le> 1 / 2"
  using pymod1_range[of "pymod1 x"] by (intro shift_half_range) simp_all

lemma map_col_all:
  "map_col (Suc (Suc 0)) (\<lambda>x. pymod1 (pymod1 x))
     (map_col (Suc 0) (\<lambda>x. pymod1 (pymod1 x)) (map_col 0 (\<lambda>x. pymod1 (pymod1 x)) v)) = wrap3 v"
  by (cases v) simp

lemma wrap_axes_all: "wrap_axes 0 [True, True, True] fr = Inr (map wrap3 fr)"
  by (simp add: comp_def map_col_all)

lemma in_range3:
  assumes "i < 3"
  shows "- 1 / 2 < get_col i (shift_all (wrap3 v)) \<and> get_col i (shift_all (wrap3 v)) \<le> 1 / 2"
proof (cases v)
  case (fields a b c)
  have "\<exists>x. get_col i (shift_all (wrap3 v)) = shift_half (pymod1 (pymod1 x))"
    unfolding fields by (cases "i = 0"; cases "i = 1") auto
  then obtain x where "get_col i (shift_all (wrap3 v)) = shift_half (pymod1 (pymod1 x))" ..
  then show ?thesis by (simp only: wrap_range)
qed

lemma solve_identity: "map (solve_row cell_identity) pos_diff = pos_diff"
  by (induction pos_diff) (simp_all add: solve_row_identity)

lemma min_diff_identity:
  "min_diff pred_pos dft_pos cell_identity [True, True, True] =
     rbind (bzip ValueError vsub pred_pos dft_pos) (\<lambda>pos_diff.
       Inr (map (\<lambda>d. shift_all (wrap3 d)) pos_diff))"
proof (cases "bzip ValueError vsub pred_pos dft_pos")
  case (Inl e)
  then show ?thesis by (simp add: min_diff_def rbind_def)
next
  case (Inr pos_diff)
  have "linalg_solve cell_identity pos_diff = Inr pos_diff"
    by (simp add: linalg_solve_def det3_identity solve_identity)
  then show ?thesis
    using Inr
    by (simp add: min_diff_def rbind_def wrap_axes_all vecmat_identity comp_def
        del: wrap_axes.simps)
qed

text \<open>
  Claim C2, as amended. With the identity cell and all three axes periodic, every
  component of every displacement \<open>min_diff\<close> returns lies in \<open>(-0.5, 0.5]\<close>, and it does
  return (one row per input row) when the two position arrays have as many rows; for
  \<open>pred = [0.9, 0, 0]\<close> and \<open>target = [0, 0, 0]\<close> the result is \<open>[-0.1, 0, 0]\<close>.
\<close>

theorem min_diff_identity_range:
  "min_diff [(9 / 10, 0, 0)] [(0, 0, 0)] cell_identity [True, True, True] = Inr [(- 1 / 10, 0, 0)]
   \<and> (\<forall>out. min_diff pred_pos dft_pos cell_identity [True, True, True] = Inr out \<longrightarrow>
        (\<forall>v\<in>set out. \<forall>i<3. - 1 / 2 < get_col i v \<and> get_col i v \<le> 1 / 2))
   \<and> (length pred_pos = length dft_pos \<longrightarrow>
        (\<exists>out. min_diff pred_pos dft_pos cell_identity [True, True, True] = Inr out
               \<and> length out = length pred_pos))"
proof (intro conjI allI impI)
  show "min_diff [(9 / 10, 0, 0)] [(0, 0, 0)] cell_identity [True, True, True] = Inr [(- 1 / 10, 0, 0)]"
    by (simp add: min_diff_identity rbind_def bzip_def pymod1_def shift_half_def)
next
  fix out
  assume "min_diff pred_pos dft_pos cell_identity [True, True, True] = Inr out"
  then obtain pos_diff where "out = map (\<lambda>d. shift_all (wrap3 d)) pos_diff"
    by (cases "bzip ValueError vsub pred_pos dft_pos") (auto simp: min_diff_identity rbind_def)
  then show "\<forall>v\<in>set out. \<forall>i<3. - 1 / 2 < get_col i v \<and> get_col i v \<le> 1 / 2"
    using in_range3 by auto
next
  assume "length pred_pos = length dft_pos"
  then show "\<exists>out. min_diff pred_pos dft_pos cell_identity [True, True, True] = Inr out
               \<and> length out = length pred_pos"
    by (simp add: min_diff_identity rbind_def bzip_def)
qed

theorem min_diff_identity_range_witness:
  "min_diff [(1 / 2, - 3 / 10, 27 / 10)] [(0, 0, 0)] cell_identity [True, True, True]
     = Inr [(1 / 2, - 3 / 10, - 3 / 10)]
   \<and> - 1 / 2 < get_col 2 (1 / 2, - 3 / 10, - 3 / 10 :: real)
   \<and> get_col 0 (1 / 2, - 3 / 10, - 3 / 10 :: real) \<le> 1 / 2"
  using min_diff_identity_range [of "[(1 / 2, - 3 / 10, 27 / 10)]" "[(0, 0, 0)]"]
  by (simp add: min_diff_def rbind_def bzip_def linalg_solve_def cell_identity_def pymod1_def
      shift_half_def)

text \<open>
  The interval of the claim as stated, \<open>[-0.5, 0.5)\<close>, is not the one of the code: a
  fractional component of exactly \<open>0.5\<close> is not greater than \<open>0.5\<close>, so it is not shifted.
\<close>

theorem min_diff_half_counterexample:
  "min_diff [(1 / 2, 0, 0)] [(0, 0, 0)] cell_identity [True, True, True] = Inr [(1 / 2, 0, 0)]
   \<and> \<not> get_col 0 (1 / 2, 0, 0) < 1 / 2"
  by (simp add: min_diff_def rbind_def bzip_def linalg_solve_def cell_identity_def pymod1_def
      shift_half_def)


lemma det3_row1: "det3 (vecmat (x, y, z) (r1, r2, r3), r2, r3) = x * det3 (r1, r2, r3)"
  by (cases r1; cases r2; cases r3) (simp add: algebra_simps)

lemma det3_row2: "det3 (r1, vecmat (x, y, z) (r1, r2, r3), r3) = y * det3 (r1, r2, r3)"
  by (cases r1; cases r2; cases r3) (simp add: algebra_simps)

lemma det3_row3: "det3 (r1, r2, vecmat (x, y, z) (r1, r2, r3)) = z * det3 (r1, r2, r3)"
  by (cases r1; cases r2; cases r3) (simp add: algebra_simps)

lemma solve_vecmat: "det3 cell \<noteq> 0 \<Longrightarrow> solve_row cell (vecmat f cell) = f"
  for cell :: mat3
proof -
  assume nz: "det3 cell \<noteq> 0"
  obtain r1 r2 r3 where c: "cell = (r1, r2, r3)" by (cases cell) auto
  obtain x y z where f: "f = (x, y, z)" by (cases f) auto
  show ?thesis
    using nz unfolding c f solve_row.simps det3_row1 det3_row2 det3_row3 by simp
qed

lemma get_map_col: "i < 3 \<Longrightarrow> j < 3 \<Longrightarrow> i \<noteq> j \<Longrightarrow> get_col i (map_col j g v) = get_col i v"
  by (cases v) auto

lemma wrap_axes_untouched:
  "wrap_axes j pbc fr = Inr w \<Longrightarrow> i < 3 \<Longrightarrow>
   (i < j \<or> nonperiodic pbc (i - j)) \<Longrightarrow>
   length w = length fr \<and> (\<forall>k<length fr. get_col i (w ! k) = get_col i (fr ! k))"
  for pbc :: "bool list"
proof (induction pbc arbitrary: j fr)
  case Nil
  then show ?case by simp
next
  case (Cons periodic pbc)
  have nxt: "i < Suc j \<or> nonperiodic pbc (i - Suc j)"
  proof (cases "i \<le> j")
    case True
    then show ?thesis by simp
  next
    case False
    then have "i - j = Suc (i - Suc j)" by simp
    with Cons.prems(3) False show ?thesis by (auto simp: nonperiodic_def split: if_splits)
  qed
  show ?case
  proof (cases periodic)
    case False
    then have "wrap_axes (Suc j) pbc fr = Inr w" using Cons.prems(1) by simp
    from Cons.IH[OF this Cons.prems(2) nxt] show ?thesis .
  next
    case True
    then have j3: "j < 3" using Cons.prems(1) by (simp split: if_splits)
    have ij: "i \<noteq> j" using Cons.prems(3) True by (auto simp: nonperiodic_def)
    let ?fr = "map (map_col j (\<lambda>x. pymod1 (pymod1 x))) fr"
    have "wrap_axes (Suc j) pbc ?fr = Inr w" using Cons.prems(1) True j3 by simp
    from Cons.IH[OF this Cons.prems(2) nxt]
    show ?thesis using get_map_col[OF Cons.prems(2) j3 ij] by simp
  qed
qed


lemma get_col_shift: "get_col i (shift_all v) = shift_half (get_col i v)"
  by (cases v) simp

text \<open>
  Claim C3, as amended. Whenever \<open>min_diff\<close> returns, on an axis that is not periodic no
  modulo wrap is applied, but the shift by 1 is: the fractional coordinate of every output
  row on that axis is the fractional coordinate \<open>f\<close> of \<open>pred - target\<close> when
  \<open>f \<le> 0.5\<close> and \<open>f - 1\<close> when \<open>f > 0.5\<close>. With the identity cell this is the output
  component itself.
\<close>

theorem min_diff_nonperiodic_axis:
  fixes cell :: mat3 and pbc :: "bool list"
  assumes ret: "min_diff pred_pos dft_pos cell pbc = Inr out"
    and i3: "i < 3"
    and np: "nonperiodic pbc i"
  shows "\<exists>pos_diff. bzip ValueError vsub pred_pos dft_pos = Inr pos_diff
           \<and> det3 cell \<noteq> 0 \<and> length out = length pos_diff
           \<and> (\<forall>k<length out. get_col i (solve_row cell (out ! k))
                                = shift_half (get_col i (solve_row cell (pos_diff ! k))))
           \<and> (cell = cell_identity \<longrightarrow>
                (\<forall>k<length out. get_col i (out ! k) = shift_half (get_col i (pos_diff ! k))))"
proof -
  obtain pos_diff where pd: "bzip ValueError vsub pred_pos dft_pos = Inr pos_diff"
    using ret by (cases "bzip ValueError vsub pred_pos dft_pos") (auto simp: min_diff_def rbind_def)
  have nz: "det3 cell \<noteq> 0"
    using ret pd by (auto simp: min_diff_def rbind_def linalg_solve_def split: if_splits)
  let ?fr = "map (solve_row cell) pos_diff"
  obtain w where w: "wrap_axes 0 pbc ?fr = Inr w"
    using ret pd nz by (cases "wrap_axes 0 pbc ?fr") (auto simp: min_diff_def rbind_def linalg_solve_def)
  have out: "out = map (\<lambda>f. vecmat (shift_all f) cell) w"
    using ret pd nz w by (simp add: min_diff_def rbind_def linalg_solve_def)
  have un: "length w = length ?fr \<and> (\<forall>k<length ?fr. get_col i (w ! k) = get_col i (?fr ! k))"
    using wrap_axes_untouched[OF w i3] np by simp
  have len: "length out = length pos_diff" using out un by simp
  have frac: "\<forall>k<length out. get_col i (solve_row cell (out ! k))
                                = shift_half (get_col i (solve_row cell (pos_diff ! k)))"
  proof (intro allI impI)
    fix k assume k: "k < length out"
    then have kw: "k < length w" using out by simp
    have "solve_row cell (out ! k) = shift_all (w ! k)"
      using kw by (simp add: out solve_vecmat[OF nz])
    then show "get_col i (solve_row cell (out ! k))
                 = shift_half (get_col i (solve_row cell (pos_diff ! k)))"
      using un kw by (simp add: get_col_shift)
  qed
  have ident: "cell = cell_identity \<longrightarrow>
                (\<forall>k<length out. get_col i (out ! k) = shift_half (get_col i (pos_diff ! k)))"
  proof (intro impI)
    assume c: "cell = cell_identity"
    show "\<forall>k<length out. get_col i (out ! k) = shift_half (get_col i (pos_diff ! k))"
      using frac unfolding c by (simp add: solve_row_identity)
  qed
  show ?thesis using pd nz len frac ident by blast
qed

theorem min_diff_nonperiodic_axis_witness:
  "min_diff [(1, 3, 1 / 2)] [(0, 0, 0)] ((2, 0, 0), (0, 2, 0), (0, 0, 2)) [True, False, True]
     = Inr [(1, 1, 1 / 2)]
   \<and> get_col 1 (solve_row ((2, 0, 0), (0, 2, 0), (0, 0, 2)) (1, 1, 1 / 2)) = 1 / 2
   \<and> shift_half (get_col 1 (solve_row ((2, 0, 0), (0, 2, 0), (0, 0, 2)) (1, 3, 1 / 2))) = 1 / 2"
  using min_diff_nonperiodic_axis
    [of "[(1, 3, 1 / 2)]" "[(0, 0, 0)]" "((2, 0, 0), (0, 2, 0), (0, 0, 2))"
        "[True, False, True]" "[(1, 1, 1 / 2)]" 1]
  by (simp add: min_diff_def rbind_def bzip_def linalg_solve_def pymod1_def shift_half_def
      nonperiodic_def)

text \<open>
  The claim as stated fails on a non-periodic axis whose fractional component exceeds
  \<open>0.5\<close>: the shift applies to every entry of the array, periodic axis or not.
\<close>

theorem min_diff_nonperiodic_counterexample:
  "min_diff [(9 / 10, 0, 0)] [(0, 0, 0)] cell_identity [False, False, False]
     = Inr [(- 1 / 10, 0, 0)]
   \<and> vsub (9 / 10, 0, 0) (0, 0, 0) = (9 / 10, 0, 0)
   \<and> get_col 0 (- 1 / 10, 0, 0) \<noteq> get_col 0 (9 / 10, 0, 0)"
  by (simp add: min_diff_def rbind_def bzip_def linalg_solve_def cell_identity_def
      shift_half_def)

section \<open>Properties of \<open>energy_force_within_threshold\<close>\<close>

lemma tensor_max_nonempty:
  "rows \<noteq> [] \<Longrightarrow> tensor_max rows = Inr (Max (set (concat (map comps rows))))"
proof -
  assume "rows \<noteq> []"
  then obtain r rs where rows: "rows = r # rs" by (cases rows) auto
  obtain x y z where r: "r = (x, y, z)" by (cases r) auto
  have c: "concat (map comps rows) = x # (y # z # concat (map comps rs))"
    by (simp add: rows r)
  show ?thesis unfolding tensor_max_def c by (simp only: list.case Max.set_eq_fold)
qed

lemma count_success_loop:
  assumes "counts = pre @ ns" "i = length pre" "start = sum_list pre"
    and "length counts \<le> length ee" "\<forall>n\<in>set ns. 0 < n" "sum_list counts \<le> length ef"
  shows "count_success i start ns ee ef s =
           Inr (s + int (length (filter (structure_ok counts ee ef) [i..<i + length ns])))"
  using assms
proof (induction ns arbitrary: pre i start s)
  case Nil
  then show ?case by simp
next
  case (Cons n ns)
  have i: "i < length ee" using Cons.prems(1,2,4) by simp
  have ni: "counts ! i = n" using Cons.prems(1,2) by simp
  have ti: "sum_list (take i counts) = start" using Cons.prems(1,2,3) by simp
  have rows: "structure_rows counts ef i = take n (drop start ef)"
    by (simp add: structure_rows_def ni ti)
  have "start + n \<le> length ef" using Cons.prems(1,3,6) by simp
  moreover have "0 < n" using Cons.prems(5) by simp
  ultimately have ne: "take n (drop start ef) \<noteq> []" by auto
  have tm: "tensor_max (take n (drop start ef))
              = Inr (Max (set (concat (map comps (structure_rows counts ef i)))))"
    using tensor_max_nonempty[OF ne] by (simp add: rows)
  have nxt: "\<And>s'. count_success (Suc i) (start + n) ns ee ef s' =
           Inr (s' + int (length (filter (structure_ok counts ee ef) [Suc i..<Suc i + length ns])))"
    using Cons.prems by (intro Cons.IH[of "pre @ [n]"]) auto
  have "i < i + length (n # ns)" by simp
  from upt_conv_Cons[OF this]
  have up: "[i..<i + length (n # ns)] = i # [Suc i..<Suc i + length ns]" by simp
  have oki: "structure_ok counts ee ef i \<longleftrightarrow>
               ee ! i < e_thresh
               \<and> Max (set (concat (map comps (structure_rows counts ef i)))) < f_thresh"
    by (simp add: structure_ok_def e_thresh_def f_thresh_def)
  have "count_success i start (n # ns) ee ef s =
          count_success (Suc i) (start + n) ns ee ef
            (if structure_ok counts ee ef i then s + 1 else s)"
    using i oki tm by (simp add: rbind_def)
  also have "\<dots> = Inr ((if structure_ok counts ee ef i then s + 1 else s)
                 + int (length (filter (structure_ok counts ee ef) [Suc i..<Suc i + length ns])))"
    by (rule nxt)
  also have "\<dots> = Inr (s + int (length (filter (structure_ok counts ee ef)
                                         (i # [Suc i..<Suc i + length ns]))))"
    by simp
  finally show ?case by (simp only: up)
qed

lemma count_success_not_assert:
  "count_success i start ns ee ef s \<noteq> Inl AssertionError"
proof (induction ns arbitrary: i start s)
  case Nil
  then show ?case by simp
next
  case (Cons n ns)
  show ?case
    using Cons.IH
    by (cases "tensor_max (take n (drop start ef))")
       (auto simp: rbind_def tensor_max_def split: list.splits if_splits)
qed

lemma bzip_not_assert: "e \<noteq> AssertionError \<Longrightarrow> bzip e f xs ys \<noteq> Inl AssertionError"
  by (auto simp: bzip_def)

text \<open>
  Claim C8, as amended. With the keys it reads present, \<open>energy_force_within_threshold\<close>
  raises \<open>AssertionError\<close> exactly when the sum of \<open>target.natoms\<close> differs from the number
  of predicted force rows or the number of structures differs from the number of predicted
  energies. When the counts are consistent, the target tensors have the shapes of the
  predicted ones, there is at least one structure and every structure has at least one
  atom, it returns the record of the success count over the number of structures, where a
  structure succeeds iff its energy error is below 0.02 and its largest absolute force
  error is below 0.03.
\<close>

theorem energy_force_within_threshold_correct:
  assumes "natoms target = Some counts" "forces prediction = Some pf" "energy prediction = Some pe"
    and "forces target = Some tf" "energy target = Some te"
  shows "(energy_force_within_threshold prediction target = Inl AssertionError
            \<longleftrightarrow> sum_list counts \<noteq> length pf \<or> length counts \<noteq> length pe)
       \<and> (sum_list counts = length pf \<and> length counts = length pe
           \<and> length tf = length pf \<and> length te = length pe
           \<and> counts \<noteq> [] \<and> (\<forall>n\<in>set counts. 0 < n)
          \<longrightarrow> energy_force_within_threshold prediction target =
                Inr (StatDict
                  (Fin (of_nat (length (filter
                          (structure_ok counts (map2 (\<lambda>t p. \<bar>t - p\<bar>) te pe)
                                            (map2 (\<lambda>t p. vabs (vsub t p)) tf pf))
                          [0..<length counts]))
                        / of_nat (length counts)))
                  (of_nat (length (filter
                          (structure_ok counts (map2 (\<lambda>t p. \<bar>t - p\<bar>) te pe)
                                            (map2 (\<lambda>t p. vabs (vsub t p)) tf pf))
                          [0..<length counts])))
                  (int (length counts))))"
proof (intro conjI impI)
  show "energy_force_within_threshold prediction target = Inl AssertionError
            \<longleftrightarrow> sum_list counts \<noteq> length pf \<or> length counts \<noteq> length pe"
  proof (cases "sum_list counts \<noteq> length pf \<or> length counts \<noteq> length pe")
    case True
    then show ?thesis
      using assms by (auto simp: energy_force_within_threshold_def rbind_def getitem_def)
  next
    case False
    have b1: "bzip RuntimeError (\<lambda>t p. vabs (vsub t p)) tf pf \<noteq> Inl AssertionError"
      by (rule bzip_not_assert) simp
    have b2: "bzip RuntimeError (\<lambda>t p. \<bar>t - p\<bar>) te pe \<noteq> Inl AssertionError"
      by (rule bzip_not_assert) simp
    have "energy_force_within_threshold prediction target \<noteq> Inl AssertionError"
      using assms False count_success_not_assert b1 b2
      by (auto simp: energy_force_within_threshold_def rbind_def getitem_def
               split: sum.splits if_splits)
    with False show ?thesis by simp
  qed
next
  assume h: "sum_list counts = length pf \<and> length counts = length pe
           \<and> length tf = length pf \<and> length te = length pe
           \<and> counts \<noteq> [] \<and> (\<forall>n\<in>set counts. 0 < n)"
  let ?ee = "map2 (\<lambda>t p. \<bar>t - p\<bar>) te pe"
  let ?ef = "map2 (\<lambda>t p. vabs (vsub t p)) tf pf"
  have ee: "bzip RuntimeError (\<lambda>t p. \<bar>t - p\<bar>) te pe = Inr ?ee" using h by (simp add: bzip_def)
  have ef: "bzip RuntimeError (\<lambda>t p. vabs (vsub t p)) tf pf = Inr ?ef" using h by (simp add: bzip_def)
  have "count_success 0 0 counts ?ee ?ef 0 =
          Inr (0 + int (length (filter (structure_ok counts ?ee ?ef) [0..<0 + length counts])))"
    using h by (intro count_success_loop[of counts "[]"]) auto
  then show "energy_force_within_threshold prediction target =
                Inr (StatDict
                  (Fin (of_nat (length (filter (structure_ok counts ?ee ?ef) [0..<length counts]))
                        / of_nat (length counts)))
                  (of_nat (length (filter (structure_ok counts ?ee ?ef) [0..<length counts])))
                  (int (length counts)))"
    using assms h ee ef
    by (auto simp: energy_force_within_threshold_def rbind_def getitem_def)
qed

theorem energy_force_within_threshold_witness:
  "energy_force_within_threshold
     (no_batch\<lparr>energy := Some [1, 2],
               forces := Some [(0, 0, 0), (0, 0, 1 / 100), (0, 0, 0), (1, 0, 0), (0, 0, 0)]\<rparr>)
     (no_batch\<lparr>energy := Some [1, 2 + 1 / 100],
               forces := Some [(0, 0, 0), (0, 0, 0), (0, 0, 0), (0, 0, 0), (0, 0, 0)],
               natoms := Some [2, 3]\<rparr>)
     = Inr (StatDict (Fin (1 / 2)) 1 2)
   \<and> energy_force_within_threshold
     (no_batch\<lparr>energy := Some [1, 2],
               forces := Some [(0, 0, 0), (0, 0, 1 / 100), (0, 0, 0), (1, 0, 0)]\<rparr>)
     (no_batch\<lparr>energy := Some [1, 2 + 1 / 100],
               forces := Some [(0, 0, 0), (0, 0, 0), (0, 0, 0), (0, 0, 0), (0, 0, 0)],
               natoms := Some [2, 3]\<rparr>)
     = Inl AssertionError"
proof -
  have a: "energy_force_within_threshold
     (no_batch\<lparr>energy := Some [1, 2],
               forces := Some [(0, 0, 0), (0, 0, 1 / 100), (0, 0, 0), (1, 0, 0), (0, 0, 0)]\<rparr>)
     (no_batch\<lparr>energy := Some [1, 2 + 1 / 100],
               forces := Some [(0, 0, 0), (0, 0, 0), (0, 0, 0), (0, 0, 0), (0, 0, 0)],
               natoms := Some [2, 3]\<rparr>)
     = Inr (StatDict (Fin (1 / 2)) 1 2)"
    by (simp add: energy_force_within_threshold_def no_batch_def getitem_def rbind_def bzip_def
        tensor_max_def e_thresh_def f_thresh_def)
  have b: "energy_force_within_threshold
     (no_batch\<lparr>energy := Some [1, 2],
               forces := Some [(0, 0, 0), (0, 0, 1 / 100), (0, 0, 0), (1, 0, 0)]\<rparr>)
     (no_batch\<lparr>energy := Some [1, 2 + 1 / 100],
               forces := Some [(0, 0, 0), (0, 0, 0), (0, 0, 0), (0, 0, 0), (0, 0, 0)],
               natoms := Some [2, 3]\<rparr>)
     = Inl AssertionError"
    using energy_force_within_threshold_correct
      [of "no_batch\<lparr>energy := Some [1, 2 + 1 / 100],
               forces := Some [(0, 0, 0), (0, 0, 0), (0, 0, 0), (0, 0, 0), (0, 0, 0)],
               natoms := Some [2, 3]\<rparr>" "[2, 3]"
          "no_batch\<lparr>energy := Some [1, 2],
               forces := Some [(0, 0, 0), (0, 0, 1 / 100), (0, 0, 0), (1, 0, 0)]\<rparr>"
          "[(0, 0, 0), (0, 0, 1 / 100), (0, 0, 0), (1, 0, 0)]" "[1, 2]"
          "[(0, 0, 0), (0, 0, 0), (0, 0, 0), (0, 0, 0), (0, 0, 0)]" "[1, 2 + 1 / 100]"]
    by (simp add: no_batch_def)
  show ?thesis using a b by simp
qed

text \<open>
  The claim as stated fails for a batch of no structures: both counts agree (0 rows for 0
  atoms, 0 energies for 0 structures), and \<open>success / total\<close> raises
  \<open>ZeroDivisionError\<close>.
\<close>

theorem energy_force_within_threshold_counterexample:
  "energy_force_within_threshold
     (no_batch\<lparr>energy := Some [], forces := Some []\<rparr>)
     (no_batch\<lparr>energy := Some [], forces := Some [], natoms := Some []\<rparr>)
     = Inl ZeroDivisionError
   \<and> sum_list ([] :: nat list) = length ([] :: vec3 list)
   \<and> length ([] :: nat list) = length ([] :: real list)"
  by (simp add: energy_force_within_threshold_def no_batch_def getitem_def rbind_def bzip_def)

section \<open>Properties of \<open>Evaluator.eval\<close>\<close>

lemma starts_with_iff: "starts_with sub s \<longleftrightarrow> (\<exists>suf. s = sub @ suf)"
  by (induction sub s rule: starts_with.induct) auto

lemma str_in_iff: "str_in sub s \<longleftrightarrow> (\<exists>pre suf. s = pre @ sub @ suf)"
proof (induction s)
  case Nil
  then show ?case by auto
next
  case (Cons c cs)
  show ?case
  proof
    assume "str_in sub (c # cs)"
    then consider "starts_with sub (c # cs)" | "str_in sub cs" by auto
    then show "\<exists>pre suf. c # cs = pre @ sub @ suf"
    proof cases
      case 1
      then obtain suf where "c # cs = sub @ suf" by (auto simp: starts_with_iff)
      then have "c # cs = [] @ sub @ suf" by simp
      then show ?thesis by blast
    next
      case 2
      then obtain pre suf where "cs = pre @ sub @ suf" using Cons.IH by auto
      then have "c # cs = (c # pre) @ sub @ suf" by simp
      then show ?thesis by blast
    qed
  next
    assume "\<exists>pre suf. c # cs = pre @ sub @ suf"
    then obtain pre suf where ps: "c # cs = pre @ sub @ suf" by auto
    show "str_in sub (c # cs)"
    proof (cases pre)
      case Nil
      then have "starts_with sub (c # cs)" using ps by (auto simp: starts_with_iff)
      then show ?thesis by simp
    next
      case (Cons a pre')
      then have "cs = pre' @ sub @ suf" using ps by simp
      then have "str_in sub cs" using Cons.IH by blast
      then show ?thesis by simp
    qed
  qed
qed

lemma metric_name_canonical:
  "(if \<not> str_in p fn then p @ ''_'' @ fn else fn) = canonical_name p fn"
  by (simp add: canonical_name_def str_in_iff)


text \<open>
  The two loops of \<open>eval\<close> do what the naming rule and the merge protocol ask: on a well
  formed specification \<open>eval\<close> is the flat run over the dispatched pairs, whatever the
  names evaluate to and whether the run returns or raises.
\<close>

lemma merge_pairs_append:
  "merge_pairs call prediction target (ps @ qs) m =
     (case merge_pairs call prediction target ps m of
        (Some e, m') \<Rightarrow> (Some e, m')
      | (None, m') \<Rightarrow> merge_pairs call prediction target qs m')"
proof (induction ps arbitrary: m)
  case Nil
  then show ?case by simp
next
  case (Cons pf ps)
  obtain p fn where pf: "pf = (p, fn)" by (cases pf) auto
  show ?case
    unfolding pf
    by (cases "call fn prediction target p")
       (auto simp: Cons.IH split: prod.splits option.splits)
qed

lemma eval_fns_pairs:
  "eval_fns call prediction target p fns m
     = merge_pairs call prediction target (map (Pair p) fns) m"
proof (induction fns arbitrary: m)
  case Nil
  then show ?case by simp
next
  case (Cons fn fns)
  show ?case
    by (cases "call fn prediction target p")
       (auto simp: Cons.IH metric_name_canonical Let_def split: prod.splits option.splits)
qed

lemma eval_merges_pairs:
  "well_formed tm \<Longrightarrow>
   eval_properties call prediction target tm m
     = merge_pairs call prediction target (dispatched tm) m"
proof (induction tm arbitrary: m)
  case Nil
  then show ?case by (simp add: dispatched_def)
next
  case (Cons pe tm)
  obtain p e where pe: "pe = (p, e)" by (cases pe) auto
  from Cons.prems pe obtain d fns where e: "e = EDict d" and fns: "map_of d ''metrics'' = Some fns"
    by (cases e) (auto simp: well_formed_def)
  have wf: "well_formed tm" using Cons.prems by (simp add: well_formed_def)
  have d: "dispatched (pe # tm) = map (Pair p) fns @ dispatched tm"
    by (simp add: dispatched_def pe e fns)
  show ?case
    unfolding d merge_pairs_append
    by (simp add: pe e fns eval_fns_pairs Cons.IH[OF wf] split: prod.splits option.splits)
qed

text \<open>
  Claim C9 (the code departs from it). For the property \<open>forces\<close> and the function
  \<open>forces_mae\<close>, the example of the claim, \<open>eval\<close> raises \<open>TypeError\<close> and stores nothing:
  the name \<open>forces_mae\<close> is computed, but the function takes two parameters and is called
  with three.
\<close>

theorem eval_forces_mae_raises:
  "Evaluator_eval (module_call torch_cosine_similarity)
     (Evaluator_init None (Some [(''forces'', EDict [(''metrics'', [''forces_mae''])])]))
     prediction target prev_metrics
   = (Some TypeError, prev_metrics)"
  by (simp add: Evaluator_eval_def Evaluator_init_def module_call_def)

text \<open>
  Where the function does take the key, the rule is what the code does: \<open>forcesx_mae\<close>
  under \<open>forces\<close> is stored as \<open>forcesx_mae\<close>, and \<open>mae\<close> under \<open>energy\<close> as
  \<open>energy_mae\<close>.
\<close>

lemma eval_names_example:
  "Evaluator_eval (module_call torch_cosine_similarity)
       (Evaluator_init None (Some [(''forces'', EDict [(''metrics'', [''forcesx_mae''])]),
                                   (''energy'', EDict [(''metrics'', [''mae''])])]))
       (no_batch\<lparr>energy := Some [1, 2], forces := Some [(1, 0, 0)]\<rparr>)
       (no_batch\<lparr>energy := Some [1, 3], forces := Some [(0, 0, 0)]\<rparr>) Map.empty
     = (None, [''forcesx_mae'' \<mapsto> \<lparr>metric = Some 1, total = 1, numel = 1\<rparr>,
               ''energy_mae'' \<mapsto> \<lparr>metric = Some (1 / 2), total = 1, numel = 2\<rparr>])"
  by (simp add: Evaluator_eval_def Evaluator_init_def module_call_def
      forcesx_mae_def forces_column_def mae_def by_key_def batch_item_def summary_def
      no_batch_def getitem_def rbind_def bzip_def
      accumulate_def seed_def zero_record_def Let_def
      round_double_1 round_double_2 round_double_half)

text \<open>
  Claim C5 (the code departs from it). For the task \<open>is2re\<close>, \<open>eval\<close> raises
  \<open>TypeError\<close> on every pair of batches and leaves the table as it was: the entry of
  \<open>is2re\<close> in \<open>task_metrics\<close> has no property level, so the loop takes \<open>metrics\<close> for a
  property name and indexes the list of names with the string \<open>metrics\<close>.
\<close>

theorem eval_is2re_raises:
  "Evaluator_eval call (Evaluator_init (Some ''is2re'') None) prediction target prev_metrics
     = (Some TypeError, prev_metrics)"
  by (simp add: Evaluator_eval_def Evaluator_init_def task_metrics_def)

text \<open>
  Claim C4 (the code departs from it). Two calls of \<open>eval\<close> that omit \<open>prev_metrics\<close>, on
  the same batches, starting from a fresh module: the second returns the totals of both,
  since both fold into the one default dict.
\<close>

theorem eval_default_table_shared:
  "fst (eval_call (module_call torch_cosine_similarity)
          (Evaluator_init None (Some [(''energy'', EDict [(''metrics'', [''energy_within_threshold''])])]))
          (no_batch\<lparr>energy := Some [1]\<rparr>) (no_batch\<lparr>energy := Some [1]\<rparr>) None Map.empty)
     = (None, [''energy_within_threshold'' \<mapsto> \<lparr>metric = Some 1, total = 1, numel = 1\<rparr>])
   \<and> fst (eval_call (module_call torch_cosine_similarity)
          (Evaluator_init None (Some [(''energy'', EDict [(''metrics'', [''energy_within_threshold''])])]))
          (no_batch\<lparr>energy := Some [1]\<rparr>) (no_batch\<lparr>energy := Some [1]\<rparr>) None
          (snd (eval_call (module_call torch_cosine_similarity)
                  (Evaluator_init None
                     (Some [(''energy'', EDict [(''metrics'', [''energy_within_threshold''])])]))
                  (no_batch\<lparr>energy := Some [1]\<rparr>) (no_batch\<lparr>energy := Some [1]\<rparr>) None Map.empty)))
     = (None, [''energy_within_threshold'' \<mapsto> \<lparr>metric = Some 1, total = 2, numel = 2\<rparr>])"
  by (simp add: eval_call_def Evaluator_eval_def Evaluator_init_def module_call_def
      energy_within_threshold_def no_batch_def getitem_def rbind_def bzip_def e_thresh_def
      accumulate_def seed_def zero_record_def Let_def round_double_1 round_double_2)

end
